theory Spec2Isabelle
  imports Complex_Main
begin

section \<open>Python values\<close>

text \<open>
  The notebook \<^verbatim>\<open>bond_price_val.ipynb\<close> defines one class, \<^verbatim>\<open>Bond\<close>. Its numbers are
  Python floats (or ints that true division turns into floats); they are modelled as
  reals, so every statement below is one of exact arithmetic. Rounding, overflow,
  infinities and NaN are not modelled. What is modelled exactly is the control flow:
  which exception is raised where, and which attribute is assigned when.

  The specification names some things differently: its \<^verbatim>\<open>yield_annual\<close> is the code's
  \<^verbatim>\<open>ytm_annual\<close>, its \<^verbatim>\<open>periods_per_year\<close> is \<^verbatim>\<open>terms_per_year\<close>, its \<^verbatim>\<open>set_yield\<close> is
  \<^verbatim>\<open>set_ytm\<close>, and its \<^verbatim>\<open>ConfigurationError\<close> is the code's \<^verbatim>\<open>ValueError\<close>.

  The exceptions of the class: \<^verbatim>\<open>ValueError\<close> is raised by the constructor's own
  checks, \<^verbatim>\<open>ZeroDivisionError\<close> by \<^verbatim>\<open>/\<close> with a zero divisor and by \<^verbatim>\<open>0.0 ** n\<close> with
  \<open>n < 0\<close>, \<^verbatim>\<open>RuntimeError\<close> by the root finder when it gives up.
\<close>

datatype error = ValueError | ZeroDivisionError | RuntimeError

definition bind_res :: "error + 'a \<Rightarrow> ('a \<Rightarrow> error + 'b) \<Rightarrow> error + 'b" where
  "bind_res m f = (case m of Inl e \<Rightarrow> Inl e | Inr v \<Rightarrow> f v)"

text \<open>\<^verbatim>\<open>a / b\<close>\<close>

definition py_div :: "real \<Rightarrow> real \<Rightarrow> error + real" where
  "py_div a b = (if b = 0 then Inl ZeroDivisionError else Inr (a / b))"

text \<open>\<^verbatim>\<open>x ** n\<close> for an int exponent \<open>n\<close>; \<^verbatim>\<open>0.0 ** 0\<close> is \<open>1.0\<close>.\<close>

definition py_pow :: "real \<Rightarrow> int \<Rightarrow> error + real" where
  "py_pow x n = (if x = 0 \<and> n < 0 then Inl ZeroDivisionError else Inr (x powi n))"

text \<open>\<^verbatim>\<open>int(x)\<close> truncates towards zero.\<close>

definition py_int :: "real \<Rightarrow> int" where
  "py_int x = (if 0 \<le> x then \<lfloor>x\<rfloor> else \<lceil>x\<rceil>)"

text \<open>\<^verbatim>\<open>range(lo, hi)\<close>: the ints from \<open>lo\<close> up to \<open>hi - 1\<close>, none when \<open>hi \<le> lo\<close>.\<close>

definition py_range :: "int \<Rightarrow> int \<Rightarrow> int list" where
  "py_range lo hi = [lo..hi - 1]"

text \<open>
  The three loops of the class have one shape: an accumulator, started at zero, to which
  the term of each index is added in turn (\<^verbatim>\<open>sum(... for i in range(...))\<close> and
  \<^verbatim>\<open>for i in range(...): numerator += ...\<close>). An exception in a term ends the loop.
\<close>

fun accumulate :: "(int \<Rightarrow> error + real) \<Rightarrow> int list \<Rightarrow> real \<Rightarrow> error + real" where
  "accumulate f [] acc = Inr acc"
| "accumulate f (i # rest) acc = bind_res (f i) (\<lambda>v. accumulate f rest (acc + v))"

section \<open>The class Bond\<close>

text \<open>The attributes of an instance, in the order the constructor assigns them.\<close>

record bond =
  coupon_rate :: real
  maturity :: real
  par :: real
  terms_per_year :: real
  init_guess :: real
  coupon_payment :: real
  total_periods :: int
  ytm_annual :: real
  price :: real
  macaulay_duration :: real
  modified_duration :: real
  convexity :: real

text \<open>
  \<^verbatim>\<open>scipy.optimize.newton(func, x0)\<close> is library code outside the repository. It is a
  parameter of the model: a function from the equation and the initial guess to a root
  or an exception.

  The root finder works on, and returns, \<^verbatim>\<open>numpy.float64\<close> values. With such an operand a
  zero divisor gives \<^verbatim>\<open>inf\<close> or \<^verbatim>\<open>nan\<close> and a warning, where Python floats raise
  \<^verbatim>\<open>ZeroDivisionError\<close>. The model has Python floats only. So where it says
  \<^verbatim>\<open>ZeroDivisionError\<close> for a computation on a yield that came from the root finder
  (inside \<^verbatim>\<open>ytm_equation\<close>, in a construction from a price alone, and in \<^verbatim>\<open>dv01\<close> on the
  state such a construction leaves) the code produces \<^verbatim>\<open>inf\<close> or \<^verbatim>\<open>nan\<close> instead. No
  theorem below asserts an exception of such a computation; what is asserted of them
  is for nonzero divisors, where the two kinds of number agree.
\<close>

type_synonym solver = "(real \<Rightarrow> error + real) \<Rightarrow> real \<Rightarrow> error + real"

text \<open>\<^verbatim>\<open>_calculate_price_from_ytm(self, ytm_annual)\<close>\<close>

definition calculate_price_from_ytm :: "bond \<Rightarrow> real \<Rightarrow> error + real" where
  "calculate_price_from_ytm self ytm =
     bind_res (py_div ytm (terms_per_year self)) (\<lambda>per_rate.
     bind_res (accumulate
                 (\<lambda>i. bind_res (py_pow (1 + per_rate) i) (\<lambda>d. py_div (coupon_payment self) d))
                 (py_range 1 (total_periods self + 1)) 0) (\<lambda>pv_coupons.
     bind_res (py_pow (1 + per_rate) (total_periods self)) (\<lambda>d.
     bind_res (py_div (par self) d) (\<lambda>pv_par.
     Inr (pv_coupons + pv_par)))))"

text \<open>\<^verbatim>\<open>_calculate_ytm_from_price(self, price)\<close>, with its inner \<^verbatim>\<open>ytm_equation\<close>\<close>

definition ytm_equation :: "bond \<Rightarrow> real \<Rightarrow> real \<Rightarrow> error + real" where
  "ytm_equation self target ytm_guess =
     bind_res (py_div ytm_guess (terms_per_year self)) (\<lambda>per_rate.
     bind_res (accumulate
                 (\<lambda>i. bind_res (py_pow (1 + per_rate) i) (\<lambda>d. py_div (coupon_payment self) d))
                 (py_range 1 (total_periods self + 1)) 0) (\<lambda>pv_coupons.
     bind_res (py_pow (1 + per_rate) (total_periods self)) (\<lambda>d.
     bind_res (py_div (par self) d) (\<lambda>pv_par.
     Inr (pv_coupons + pv_par - target)))))"

definition calculate_ytm_from_price :: "solver \<Rightarrow> bond \<Rightarrow> real \<Rightarrow> error + real" where
  "calculate_ytm_from_price newton self target =
     newton (ytm_equation self target) (init_guess self)"

text \<open>\<^verbatim>\<open>_calculate_macaulay_duration(self)\<close>\<close>

definition calculate_macaulay_duration :: "bond \<Rightarrow> error + real" where
  "calculate_macaulay_duration self =
     bind_res (py_div (ytm_annual self) (terms_per_year self)) (\<lambda>per_rate.
     bind_res (accumulate
                 (\<lambda>i. bind_res (py_div (of_int i) (terms_per_year self)) (\<lambda>t.
                      bind_res (py_pow (1 + per_rate) i) (\<lambda>d.
                      py_div (t * coupon_payment self) d)))
                 (py_range 1 (total_periods self + 1)) 0) (\<lambda>numerator.
     bind_res (py_pow (1 + per_rate) (total_periods self)) (\<lambda>d.
     bind_res (py_div (maturity self * par self) d) (\<lambda>redemption.
     py_div (numerator + redemption) (price self)))))"

text \<open>\<^verbatim>\<open>_calculate_modified_duration(self)\<close>\<close>

definition calculate_modified_duration :: "bond \<Rightarrow> error + real" where
  "calculate_modified_duration self =
     bind_res (py_div (ytm_annual self) (terms_per_year self)) (\<lambda>per_rate.
     py_div (macaulay_duration self) (1 + per_rate))"

text \<open>\<^verbatim>\<open>_calculate_convexity(self)\<close>\<close>

definition calculate_convexity :: "bond \<Rightarrow> error + real" where
  "calculate_convexity self =
     bind_res (py_div (ytm_annual self) (terms_per_year self)) (\<lambda>per_rate.
     bind_res (accumulate
                 (\<lambda>i. bind_res (py_pow (1 + per_rate) (i + 2)) (\<lambda>d.
                      py_div (of_int i * (of_int i + 1) * coupon_payment self) d))
                 (py_range 1 (total_periods self + 1)) 0) (\<lambda>numerator.
     bind_res (py_pow (1 + per_rate) (total_periods self + 2)) (\<lambda>d.
     bind_res (py_div (of_int (total_periods self) * (of_int (total_periods self) + 1)
                         * par self) d) (\<lambda>redemption.
     bind_res (py_pow (terms_per_year self) 2) (\<lambda>t2.
     py_div (numerator + redemption) (price self * t2))))))"

text \<open>
  \<^verbatim>\<open>__init__(self, coupon_rate, ytm, maturity, par, price, terms_per_year, init_guess)\<close>.
  An argument that may be \<^verbatim>\<open>None\<close> is an option; the defaults \<^verbatim>\<open>terms_per_year=2\<close> and
  \<^verbatim>\<open>init_guess=0.05\<close> are for the caller to pass. An exception in the constructor
  leaves no instance. Attributes that are assigned later in the constructor hold zero
  in the record until then; no method reads one before its assignment. The innermost
  \<open>None\<close> case of the yield is never reached: the check before it has raised.
\<close>

definition construct ::
  "solver \<Rightarrow> real option \<Rightarrow> real option \<Rightarrow> real option \<Rightarrow> real option \<Rightarrow> real option
     \<Rightarrow> real \<Rightarrow> real \<Rightarrow> error + bond" where
  "construct newton coupon_rate_arg ytm_arg maturity_arg par_arg price_arg tpy guess =
     (case (coupon_rate_arg, par_arg, maturity_arg) of
        (Some cr, Some p, Some m) \<Rightarrow>
          bind_res (py_div (cr * p) tpy) (\<lambda>cp.
          let self0 = \<lparr> coupon_rate = cr, maturity = m, par = p, terms_per_year = tpy,
                         init_guess = guess, coupon_payment = cp,
                         total_periods = py_int (m * tpy),
                         ytm_annual = 0, price = 0, macaulay_duration = 0,
                         modified_duration = 0, convexity = 0 \<rparr>
          in if ytm_arg = None \<and> price_arg = None then Inl ValueError
          else
            bind_res (case ytm_arg of
                        Some y \<Rightarrow> Inr y
                      | None \<Rightarrow> (case price_arg of
                                   Some pr \<Rightarrow> calculate_ytm_from_price newton self0 pr
                                 | None \<Rightarrow> Inl ValueError)) (\<lambda>y.
            let self1 = self0 \<lparr> ytm_annual := y \<rparr> in
            bind_res (case price_arg of
                        None \<Rightarrow> calculate_price_from_ytm self1 y
                      | Some pr \<Rightarrow> Inr pr) (\<lambda>pr.
            let self2 = self1 \<lparr> price := pr \<rparr> in
            bind_res (calculate_macaulay_duration self2) (\<lambda>mac.
            let self3 = self2 \<lparr> macaulay_duration := mac \<rparr> in
            bind_res (calculate_modified_duration self3) (\<lambda>md.
            let self4 = self3 \<lparr> modified_duration := md \<rparr> in
            bind_res (calculate_convexity self4) (\<lambda>cx.
            Inr (self4 \<lparr> convexity := cx \<rparr>)))))))
      | _ \<Rightarrow> Inl ValueError)"

text \<open>
  \<^verbatim>\<open>set_ytm(self, new_ytm)\<close> assigns four attributes in turn. An exception between two
  assignments leaves the earlier ones done, so the model returns the exception, if
  any, together with the instance as the call leaves it.
\<close>

definition set_ytm :: "bond \<Rightarrow> real \<Rightarrow> error option \<times> bond" where
  "set_ytm self new_ytm =
     (let self1 = self \<lparr> ytm_annual := new_ytm \<rparr> in
      case calculate_price_from_ytm self1 new_ytm of
        Inl e \<Rightarrow> (Some e, self1)
      | Inr pr \<Rightarrow>
     (let self2 = self1 \<lparr> price := pr \<rparr> in
      case calculate_macaulay_duration self2 of
        Inl e \<Rightarrow> (Some e, self2)
      | Inr mac \<Rightarrow>
     (let self3 = self2 \<lparr> macaulay_duration := mac \<rparr> in
      case calculate_modified_duration self3 of
        Inl e \<Rightarrow> (Some e, self3)
      | Inr md \<Rightarrow>
     (let self4 = self3 \<lparr> modified_duration := md \<rparr> in
      case calculate_convexity self4 of
        Inl e \<Rightarrow> (Some e, self4)
      | Inr cx \<Rightarrow> (None, self4 \<lparr> convexity := cx \<rparr>)))))"

text \<open>
  \<^verbatim>\<open>dv01(self, bp=1)\<close> assigns no attribute; the model returns its value (or exception)
  together with the instance as the call leaves it.
\<close>

definition dv01 :: "bond \<Rightarrow> real \<Rightarrow> (error + real) \<times> bond" where
  "dv01 self bp =
     (let delta_yield = bp / 10000;
          bumped_ytm = ytm_annual self + delta_yield
      in (bind_res (calculate_price_from_ytm self bumped_ytm) (\<lambda>new_price.
            Inr (new_price - price self)), self))"

section \<open>The formulas of the specification\<close>

text \<open>
  The specification gives each quantity as a closed formula in the yield \<open>y\<close> and the fixed
  terms. These definitions follow its words, not the code; the lemmas below compare the
  code with them. They are total functions of reals: where the code raises, they have
  some value that no statement relies on.
\<close>

text \<open>The per-period discount factor \<open>1 + y / periods_per_year\<close>.\<close>

definition discount :: "bond \<Rightarrow> real \<Rightarrow> real" where
  "discount b y = 1 + y / terms_per_year b"

text \<open>Price from yield: the discounted coupons plus the discounted redemption.\<close>

definition price_formula :: "bond \<Rightarrow> real \<Rightarrow> real" where
  "price_formula b y =
     (\<Sum>i = 1..total_periods b. coupon_payment b / discount b y powi i)
       + par b / discount b y powi total_periods b"

text \<open>The time-weighted present value, and the Macaulay duration: that value over the price.\<close>

definition macaulay_numerator :: "bond \<Rightarrow> real \<Rightarrow> real" where
  "macaulay_numerator b y =
     (\<Sum>i = 1..total_periods b.
        (of_int i / terms_per_year b) * coupon_payment b / discount b y powi i)
       + maturity b * par b / discount b y powi total_periods b"

definition macaulay_formula :: "bond \<Rightarrow> real \<Rightarrow> real" where
  "macaulay_formula b y = macaulay_numerator b y / price_formula b y"

definition modified_formula :: "bond \<Rightarrow> real \<Rightarrow> real" where
  "modified_formula b y = macaulay_formula b y / discount b y"

definition convexity_numerator :: "bond \<Rightarrow> real \<Rightarrow> real" where
  "convexity_numerator b y =
     (\<Sum>i = 1..total_periods b.
        of_int i * (of_int i + 1) * coupon_payment b / discount b y powi (i + 2))
       + of_int (total_periods b) * (of_int (total_periods b) + 1) * par b
           / discount b y powi (total_periods b + 2)"

definition convexity_formula :: "bond \<Rightarrow> real \<Rightarrow> real" where
  "convexity_formula b y =
     convexity_numerator b y / (price_formula b y * (terms_per_year b)\<^sup>2)"

section \<open>Instances and their states\<close>

text \<open>
  The record the constructor has built when it reaches the check of \<^verbatim>\<open>ytm\<close> and
  \<^verbatim>\<open>price\<close> (with a nonzero \<^verbatim>\<open>terms_per_year\<close>), and the rest of the constructor from
  that point on. Lemma \<open>construct_Some\<close> proves that \<open>construct\<close> is the one after the
  other.
\<close>

definition initial_terms :: "real \<Rightarrow> real \<Rightarrow> real \<Rightarrow> real \<Rightarrow> real \<Rightarrow> bond" where
  "initial_terms cr m p tpy guess =
     \<lparr> coupon_rate = cr, maturity = m, par = p, terms_per_year = tpy,
       init_guess = guess, coupon_payment = cr * p / tpy,
       total_periods = py_int (m * tpy),
       ytm_annual = 0, price = 0, macaulay_duration = 0,
       modified_duration = 0, convexity = 0 \<rparr>"

definition construct_tail ::
  "solver \<Rightarrow> bond \<Rightarrow> real option \<Rightarrow> real option \<Rightarrow> error + bond" where
  "construct_tail newton self0 ytm_arg price_arg =
     (if ytm_arg = None \<and> price_arg = None then Inl ValueError
      else
        bind_res (case ytm_arg of
                    Some y \<Rightarrow> Inr y
                  | None \<Rightarrow> (case price_arg of
                               Some pr \<Rightarrow> calculate_ytm_from_price newton self0 pr
                             | None \<Rightarrow> Inl ValueError)) (\<lambda>y.
        let self1 = self0 \<lparr> ytm_annual := y \<rparr> in
        bind_res (case price_arg of
                    None \<Rightarrow> calculate_price_from_ytm self1 y
                  | Some pr \<Rightarrow> Inr pr) (\<lambda>pr.
        let self2 = self1 \<lparr> price := pr \<rparr> in
        bind_res (calculate_macaulay_duration self2) (\<lambda>mac.
        let self3 = self2 \<lparr> macaulay_duration := mac \<rparr> in
        bind_res (calculate_modified_duration self3) (\<lambda>md.
        let self4 = self3 \<lparr> modified_duration := md \<rparr> in
        bind_res (calculate_convexity self4) (\<lambda>cx.
        Inr (self4 \<lparr> convexity := cx \<rparr>)))))))"

text \<open>
  An instance whose yield is \<open>y\<close>, whose price is \<open>pr\<close> and whose three metrics are
  computed from these two, as the constructor and \<^verbatim>\<open>set_ytm\<close> do when nothing raises.
\<close>

definition derived :: "bond \<Rightarrow> real \<Rightarrow> real \<Rightarrow> bond" where
  "derived b y pr =
     b \<lparr> ytm_annual := y, price := pr,
         macaulay_duration := macaulay_numerator b y / pr,
         modified_duration := macaulay_numerator b y / pr / discount b y,
         convexity := convexity_numerator b y / (pr * (terms_per_year b)\<^sup>2) \<rparr>"

text \<open>What the constructor fixes once and for all.\<close>

definition terms_ok :: "bond \<Rightarrow> bool" where
  "terms_ok b \<longleftrightarrow> terms_per_year b \<noteq> 0
     \<and> coupon_payment b = coupon_rate b * par b / terms_per_year b
     \<and> total_periods b = py_int (maturity b * terms_per_year b)"

text \<open>
  The states of an instance a caller can observe: the one the constructor returns, and
  the one any call of \<^verbatim>\<open>set_ytm\<close> leaves, whether it returns or raises.
\<close>

inductive constructed :: "solver \<Rightarrow> bond \<Rightarrow> bool" for newton :: solver where
  by_init: "construct newton cr y m p pr tpy guess = Inr b \<Longrightarrow> constructed newton b"
| by_set_ytm: "constructed newton b \<Longrightarrow> set_ytm b y = (e, b') \<Longrightarrow> constructed newton b'"

text \<open>
  The states whose price comes from the yield: after a construction from a yield alone,
  after a construction from a price alone when the root finder returned an exact root
  of \<^verbatim>\<open>ytm_equation\<close>, and after a call of \<^verbatim>\<open>set_ytm\<close> that returned.
\<close>

inductive priced_from_yield :: "solver \<Rightarrow> bond \<Rightarrow> bool" for newton :: solver where
  from_ytm:
    "construct newton cr (Some y) m p None tpy guess = Inr b \<Longrightarrow> priced_from_yield newton b"
| from_exact_root:
    "construct newton cr None m p (Some target) tpy guess = Inr b \<Longrightarrow>
     ytm_equation b target (ytm_annual b) = Inr 0 \<Longrightarrow> priced_from_yield newton b"
| after_set_ytm:
    "constructed newton b \<Longrightarrow> set_ytm b y = (None, b') \<Longrightarrow> priced_from_yield newton b'"

subsection \<open>Concrete instances\<close>

text \<open>
  A root finder that gives up at once. It stands for \<^verbatim>\<open>newton\<close> in the concrete runs
  below, none of which reaches the root finder: each of them passes a yield.
\<close>

definition failing_newton :: solver where
  "failing_newton f x0 = Inl RuntimeError"

text \<open>A root finder that returns its initial guess as the root.\<close>

definition immediate_newton :: solver where
  "immediate_newton f x0 = Inr x0"

text \<open>\<^verbatim>\<open>q2BondB = Bond(0.09, 0.08, 2, 100, 100)\<close>, from the notebook: a 9% coupon, a yield
  of 8% and a price of 100, all three passed in.\<close>

definition q2BondB :: bond where
  "q2BondB =
     \<lparr> coupon_rate = 9 / 100, maturity = 2, par = 100, terms_per_year = 2,
       init_guess = 1 / 20, coupon_payment = 9 / 2, total_periods = 4,
       ytm_annual = 2 / 25, price = 100,
       macaulay_duration = 6981817 / 3655808,
       modified_duration = 174545425 / 95051008,
       convexity = 10671323125 / 2471326208 \<rparr>"

text \<open>\<^verbatim>\<open>Bond(0, 0, 1, 100)\<close>: one year, no coupon, a yield of zero.\<close>

definition zero_coupon_1y :: bond where
  "zero_coupon_1y =
     \<lparr> coupon_rate = 0, maturity = 1, par = 100, terms_per_year = 2,
       init_guess = 1 / 20, coupon_payment = 0, total_periods = 2,
       ytm_annual = 0, price = 100, macaulay_duration = 1,
       modified_duration = 1, convexity = 3 / 2 \<rparr>"

text \<open>\<^verbatim>\<open>Bond(0.06, 0.06, 1, 100)\<close>: one year, coupon and yield both 6%.\<close>

definition par_bond_1y :: bond where
  "par_bond_1y =
     \<lparr> coupon_rate = 3 / 50, maturity = 1, par = 100, terms_per_year = 2,
       init_guess = 1 / 20, coupon_payment = 3, total_periods = 2,
       ytm_annual = 3 / 50, price = 100, macaulay_duration = 203 / 206,
       modified_duration = 10150 / 10609, convexity = 1515000 / 1092727 \<rparr>"

text \<open>\<^verbatim>\<open>Bond(0.05, 0.05, 0.5, 100)\<close>: half a year, one period.\<close>

definition half_year_bond :: bond where
  "half_year_bond =
     \<lparr> coupon_rate = 1 / 20, maturity = 1 / 2, par = 100, terms_per_year = 2,
       init_guess = 1 / 20, coupon_payment = 5 / 2, total_periods = 1,
       ytm_annual = 1 / 20, price = 100, macaulay_duration = 1 / 2,
       modified_duration = 20 / 41, convexity = 800 / 1681 \<rparr>"

text \<open>\<^verbatim>\<open>Bond(0.05, 0.05, 0.25, 100)\<close>: a quarter of a year, no whole period.\<close>

definition short_bond :: bond where
  "short_bond =
     \<lparr> coupon_rate = 1 / 20, maturity = 1 / 4, par = 100, terms_per_year = 2,
       init_guess = 1 / 20, coupon_payment = 5 / 2, total_periods = 0,
       ytm_annual = 1 / 20, price = 100, macaulay_duration = 1 / 4,
       modified_duration = 10 / 41, convexity = 0 \<rparr>"

text \<open>\<^verbatim>\<open>Bond(0, 0, 1, 100, 50, 1)\<close>: a yield of zero and a price of 50, both passed in.\<close>

definition mispriced_bond :: bond where
  "mispriced_bond =
     \<lparr> coupon_rate = 0, maturity = 1, par = 100, terms_per_year = 1,
       init_guess = 1 / 20, coupon_payment = 0, total_periods = 1,
       ytm_annual = 0, price = 50, macaulay_duration = 2,
       modified_duration = 2, convexity = 4 \<rparr>"

text \<open>
  \<^verbatim>\<open>Bond(0.05, None, 1, 100, 100)\<close>, a price alone, as a root finder that returns the
  initial guess of 5% leaves it; that guess is the exact root.
\<close>

definition solved_par_bond :: bond where
  "solved_par_bond =
     \<lparr> coupon_rate = 1 / 20, maturity = 1, par = 100, terms_per_year = 2,
       init_guess = 1 / 20, coupon_payment = 5 / 2, total_periods = 2,
       ytm_annual = 1 / 20, price = 100, macaulay_duration = 81 / 82,
       modified_duration = 1620 / 1681, convexity = 96800 / 68921 \<rparr>"

text \<open>
  \<^verbatim>\<open>Bond(0.05, None, 0.25, 100, 50)\<close>, a price alone, as the same root finder leaves it.
  The bond has no whole period, so its price is 100 at every yield and no yield gives
  the price of 50.
\<close>

definition off_market_bond :: bond where
  "off_market_bond =
     \<lparr> coupon_rate = 1 / 20, maturity = 1 / 4, par = 100, terms_per_year = 2,
       init_guess = 1 / 20, coupon_payment = 5 / 2, total_periods = 0,
       ytm_annual = 1 / 20, price = 50, macaulay_duration = 1 / 2,
       modified_duration = 20 / 41, convexity = 0 \<rparr>"

section \<open>The code against the formulas\<close>

subsection \<open>Exceptions and loops\<close>

lemma bind_res_Inl [simp]: "bind_res (Inl e) f = Inl e"
  by (simp add: bind_res_def)

lemma bind_res_Inr [simp]: "bind_res (Inr v) f = f v"
  by (simp add: bind_res_def)

lemma py_div_nonzero [simp]: "b \<noteq> 0 \<Longrightarrow> py_div a b = Inr (a / b)"
  by (simp add: py_div_def)

lemma py_div_zero [simp]: "py_div a 0 = Inl ZeroDivisionError"
  by (simp add: py_div_def)

lemma py_pow_nonzero [simp]: "x \<noteq> 0 \<Longrightarrow> py_pow x n = Inr (x powi n)"
  by (simp add: py_pow_def)

lemma py_pow_nonneg [simp]: "0 \<le> n \<Longrightarrow> py_pow x n = Inr (x powi n)"
  by (simp add: py_pow_def)

lemma py_range_from_1 [simp]: "py_range 1 (n + 1) = [1..n]"
  by (simp add: py_range_def)

lemma accumulate_Inr:
  assumes "\<And>i. i \<in> set xs \<Longrightarrow> f i = Inr (g i)"
  shows "accumulate f xs acc = Inr (acc + sum_list (map g xs))"
  using assms by (induction xs arbitrary: acc) (simp_all add: add.assoc)

lemma accumulate_upto:
  assumes "\<And>i. 1 \<le> i \<Longrightarrow> i \<le> n \<Longrightarrow> f i = Inr (g i)"
  shows "accumulate f [1..n] 0 = Inr (\<Sum>i = 1..n. g i)"
proof -
  have "accumulate f [1..n] 0 = Inr (0 + sum_list (map g [1..n]))"
    by (rule accumulate_Inr) (simp add: assms)
  also have "sum_list (map g [1..n]) = sum g (set [1..n])"
    by (rule interv_sum_list_conv_sum_set_int)
  finally show ?thesis by simp
qed

lemma accumulate_pure: "accumulate (\<lambda>i. Inr (g i)) [1..n] 0 = Inr (\<Sum>i = 1..n. g i)"
  by (rule accumulate_upto) simp

lemma calculate_price_from_ytm_eq:
  assumes "terms_per_year b \<noteq> 0" and "discount b y \<noteq> 0"
  shows "calculate_price_from_ytm b y = Inr (price_formula b y)"
proof -
  have x: "1 + y / terms_per_year b \<noteq> 0"
    using assms(2) by (simp add: discount_def)
  show ?thesis
    using assms(1) x by (simp add: calculate_price_from_ytm_def accumulate_pure price_formula_def discount_def)
qed

lemma calculate_macaulay_duration_eq:
  assumes "terms_per_year b \<noteq> 0" and "discount b (ytm_annual b) \<noteq> 0" and "price b \<noteq> 0"
  shows "calculate_macaulay_duration b = Inr (macaulay_numerator b (ytm_annual b) / price b)"
proof -
  have x: "1 + ytm_annual b / terms_per_year b \<noteq> 0"
    using assms(2) by (simp add: discount_def)
  show ?thesis
    using assms(1,3) x
    by (simp add: calculate_macaulay_duration_def accumulate_pure macaulay_numerator_def discount_def)
qed

lemma calculate_modified_duration_eq:
  assumes "terms_per_year b \<noteq> 0" and "discount b (ytm_annual b) \<noteq> 0"
  shows "calculate_modified_duration b = Inr (macaulay_duration b / discount b (ytm_annual b))"
  using assms by (simp add: calculate_modified_duration_def discount_def)

lemma calculate_convexity_eq:
  assumes "terms_per_year b \<noteq> 0" and "discount b (ytm_annual b) \<noteq> 0" and "price b \<noteq> 0"
  shows "calculate_convexity b
    = Inr (convexity_numerator b (ytm_annual b) / (price b * (terms_per_year b)\<^sup>2))"
proof -
  have x: "1 + ytm_annual b / terms_per_year b \<noteq> 0"
    using assms(2) by (simp add: discount_def)
  show ?thesis
    using assms(1,3) x
    by (simp add: calculate_convexity_def accumulate_pure convexity_numerator_def discount_def)
qed

subsection \<open>The constructor and set_ytm\<close>

lemma bind_res_eq_Inr: "bind_res m f = Inr v \<longleftrightarrow> (\<exists>w. m = Inr w \<and> f w = Inr v)"
  by (cases m) simp_all

lemma py_div_eq_Inr: "py_div a b = Inr v \<longleftrightarrow> b \<noteq> 0 \<and> v = a / b"
  by (auto simp: py_div_def)

lemma calculate_macaulay_duration_InrD:
  "calculate_macaulay_duration b = Inr v \<Longrightarrow> price b \<noteq> 0"
  by (auto simp: calculate_macaulay_duration_def bind_res_eq_Inr py_div_eq_Inr)

lemma calculate_modified_duration_InrD:
  "calculate_modified_duration b = Inr v \<Longrightarrow> terms_per_year b \<noteq> 0 \<and> discount b (ytm_annual b) \<noteq> 0"
  by (auto simp: calculate_modified_duration_def bind_res_eq_Inr py_div_eq_Inr discount_def)

text \<open>The formulas and the price computation read the fixed terms only.\<close>

lemma discount_update [simp]:
  "discount (b\<lparr>ytm_annual := v\<rparr>) y = discount b y"
  "discount (b\<lparr>price := v\<rparr>) y = discount b y"
  "discount (b\<lparr>macaulay_duration := v\<rparr>) y = discount b y"
  "discount (b\<lparr>modified_duration := v\<rparr>) y = discount b y"
  "discount (b\<lparr>convexity := v\<rparr>) y = discount b y"
  by (simp_all add: discount_def)

lemma price_formula_update [simp]:
  "price_formula (b\<lparr>ytm_annual := v\<rparr>) y = price_formula b y"
  "price_formula (b\<lparr>price := v\<rparr>) y = price_formula b y"
  "price_formula (b\<lparr>macaulay_duration := v\<rparr>) y = price_formula b y"
  "price_formula (b\<lparr>modified_duration := v\<rparr>) y = price_formula b y"
  "price_formula (b\<lparr>convexity := v\<rparr>) y = price_formula b y"
  by (simp_all add: price_formula_def)

lemma macaulay_numerator_update [simp]:
  "macaulay_numerator (b\<lparr>ytm_annual := v\<rparr>) y = macaulay_numerator b y"
  "macaulay_numerator (b\<lparr>price := v\<rparr>) y = macaulay_numerator b y"
  "macaulay_numerator (b\<lparr>macaulay_duration := v\<rparr>) y = macaulay_numerator b y"
  "macaulay_numerator (b\<lparr>modified_duration := v\<rparr>) y = macaulay_numerator b y"
  "macaulay_numerator (b\<lparr>convexity := v\<rparr>) y = macaulay_numerator b y"
  by (simp_all add: macaulay_numerator_def)

lemma convexity_numerator_update [simp]:
  "convexity_numerator (b\<lparr>ytm_annual := v\<rparr>) y = convexity_numerator b y"
  "convexity_numerator (b\<lparr>price := v\<rparr>) y = convexity_numerator b y"
  "convexity_numerator (b\<lparr>macaulay_duration := v\<rparr>) y = convexity_numerator b y"
  "convexity_numerator (b\<lparr>modified_duration := v\<rparr>) y = convexity_numerator b y"
  "convexity_numerator (b\<lparr>convexity := v\<rparr>) y = convexity_numerator b y"
  by (simp_all add: convexity_numerator_def)

lemma calculate_price_from_ytm_update [simp]:
  "calculate_price_from_ytm (b\<lparr>ytm_annual := v\<rparr>) y = calculate_price_from_ytm b y"
  "calculate_price_from_ytm (b\<lparr>price := v\<rparr>) y = calculate_price_from_ytm b y"
  "calculate_price_from_ytm (b\<lparr>macaulay_duration := v\<rparr>) y = calculate_price_from_ytm b y"
  "calculate_price_from_ytm (b\<lparr>modified_duration := v\<rparr>) y = calculate_price_from_ytm b y"
  "calculate_price_from_ytm (b\<lparr>convexity := v\<rparr>) y = calculate_price_from_ytm b y"
  by (simp_all add: calculate_price_from_ytm_def)

text \<open>The tail shared by the constructor and set_ytm: the three metrics in turn.\<close>

lemma metrics_ok:
  assumes "terms_per_year b \<noteq> 0" and "discount b y \<noteq> 0" and "pr \<noteq> 0"
  shows "calculate_macaulay_duration (b\<lparr>ytm_annual := y, price := pr\<rparr>)
           = Inr (macaulay_numerator b y / pr)"
    and "calculate_modified_duration (b\<lparr>ytm_annual := y, price := pr, macaulay_duration := mac\<rparr>)
           = Inr (mac / discount b y)"
    and "calculate_convexity
           (b\<lparr>ytm_annual := y, price := pr, macaulay_duration := mac, modified_duration := md\<rparr>)
           = Inr (convexity_numerator b y / (pr * (terms_per_year b)\<^sup>2))"
  using assms
  by (simp_all add: calculate_macaulay_duration_eq calculate_modified_duration_eq
        calculate_convexity_eq)

lemma set_ytm_ok:
  assumes "terms_per_year b \<noteq> 0" and "discount b y \<noteq> 0" and "price_formula b y \<noteq> 0"
  shows "set_ytm b y = (None, derived b y (price_formula b y))"
  using assms
  by (simp add: set_ytm_def Let_def calculate_price_from_ytm_eq metrics_ok derived_def)

lemma set_ytm_NoneD:
  assumes "set_ytm b y = (None, b')"
  shows "terms_per_year b \<noteq> 0 \<and> discount b y \<noteq> 0 \<and> price_formula b y \<noteq> 0
     \<and> calculate_price_from_ytm b y = Inr (price_formula b y)"
proof -
  from assms obtain pr mac md where
    pr: "calculate_price_from_ytm b y = Inr pr"
    and mac: "calculate_macaulay_duration (b\<lparr>ytm_annual := y, price := pr\<rparr>) = Inr mac"
    and md: "calculate_modified_duration (b\<lparr>ytm_annual := y, price := pr, macaulay_duration := mac\<rparr>) = Inr md"
    by (auto simp: set_ytm_def Let_def split: sum.splits)
  from calculate_modified_duration_InrD[OF md] have t: "terms_per_year b \<noteq> 0" and x: "discount b y \<noteq> 0"
    by simp_all
  from calculate_macaulay_duration_InrD[OF mac] have "pr \<noteq> 0" by simp
  moreover have "pr = price_formula b y"
    using pr calculate_price_from_ytm_eq[OF t x] by simp
  ultimately show ?thesis using t x pr by simp
qed

lemma construct_Some:
  assumes "tpy \<noteq> 0"
  shows "construct newton (Some cr) yo (Some m) (Some p) pro tpy guess
    = construct_tail newton (initial_terms cr m p tpy guess) yo pro"
  unfolding construct_def construct_tail_def initial_terms_def
  by (simp only: option.case prod.case py_div_nonzero[OF assms] bind_res_Inr Let_def)

lemma construct_ytm_ok:
  assumes "tpy \<noteq> 0" and "discount (initial_terms cr m p tpy guess) y \<noteq> 0"
    and "price_formula (initial_terms cr m p tpy guess) y \<noteq> 0"
  shows "construct newton (Some cr) (Some y) (Some m) (Some p) None tpy guess
     = Inr (derived (initial_terms cr m p tpy guess) y
              (price_formula (initial_terms cr m p tpy guess) y))"
proof -
  have t: "terms_per_year (initial_terms cr m p tpy guess) \<noteq> 0"
    using assms(1) by (simp add: initial_terms_def)
  have "construct newton (Some cr) (Some y) (Some m) (Some p) None tpy guess
      = construct_tail newton (initial_terms cr m p tpy guess) (Some y) None"
    by (rule construct_Some[OF assms(1)])
  also have "\<dots> = Inr (derived (initial_terms cr m p tpy guess) y
              (price_formula (initial_terms cr m p tpy guess) y))"
    by (simp add: construct_tail_def Let_def
        calculate_price_from_ytm_eq[OF t assms(2)] metrics_ok[OF t assms(2) assms(3)] derived_def)
  finally show ?thesis .
qed

lemma construct_both_ok:
  assumes "tpy \<noteq> 0" and "discount (initial_terms cr m p tpy guess) y \<noteq> 0" and "pr \<noteq> 0"
  shows "construct newton (Some cr) (Some y) (Some m) (Some p) (Some pr) tpy guess
     = Inr (derived (initial_terms cr m p tpy guess) y pr)"
proof -
  have t: "terms_per_year (initial_terms cr m p tpy guess) \<noteq> 0"
    using assms(1) by (simp add: initial_terms_def)
  have "construct newton (Some cr) (Some y) (Some m) (Some p) (Some pr) tpy guess
      = construct_tail newton (initial_terms cr m p tpy guess) (Some y) (Some pr)"
    by (rule construct_Some[OF assms(1)])
  also have "\<dots> = Inr (derived (initial_terms cr m p tpy guess) y pr)"
    by (simp add: construct_tail_def Let_def metrics_ok[OF t assms(2) assms(3)] derived_def)
  finally show ?thesis .
qed

lemma bind_res_eq_Inl:
  "bind_res m f = Inl e \<longleftrightarrow> m = Inl e \<or> (\<exists>w. m = Inr w \<and> f w = Inl e)"
  by (cases m) simp_all

lemma py_div_InlD: "py_div a b = Inl e \<Longrightarrow> e = ZeroDivisionError"
  by (simp add: py_div_def split: if_splits)

lemma py_pow_InlD: "py_pow x n = Inl e \<Longrightarrow> e = ZeroDivisionError"
  by (simp add: py_pow_def split: if_splits)

lemma accumulate_InlD: "accumulate f xs acc = Inl e \<Longrightarrow> \<exists>i\<in>set xs. f i = Inl e"
  by (induction xs arbitrary: acc) (auto simp: bind_res_eq_Inl)

lemma calculate_price_from_ytm_InlD:
  "calculate_price_from_ytm b y = Inl e \<Longrightarrow> e = ZeroDivisionError"
  by (auto simp: calculate_price_from_ytm_def bind_res_eq_Inl
      dest!: accumulate_InlD dest: py_div_InlD py_pow_InlD)

lemma calculate_macaulay_duration_InlD:
  "calculate_macaulay_duration b = Inl e \<Longrightarrow> e = ZeroDivisionError"
  by (auto simp: calculate_macaulay_duration_def bind_res_eq_Inl
      dest!: accumulate_InlD dest: py_div_InlD py_pow_InlD)

lemma calculate_modified_duration_InlD:
  "calculate_modified_duration b = Inl e \<Longrightarrow> e = ZeroDivisionError"
  by (auto simp: calculate_modified_duration_def bind_res_eq_Inl dest: py_div_InlD)

lemma calculate_convexity_InlD:
  "calculate_convexity b = Inl e \<Longrightarrow> e = ZeroDivisionError"
  by (auto simp: calculate_convexity_def bind_res_eq_Inl
      dest!: accumulate_InlD dest: py_div_InlD py_pow_InlD)

lemma construct_tail_ytm_InlD:
  "construct_tail newton b0 (Some y) pro = Inl e \<Longrightarrow> e = ZeroDivisionError"
  by (auto simp: construct_tail_def Let_def bind_res_eq_Inl split: option.splits
      dest: calculate_price_from_ytm_InlD calculate_macaulay_duration_InlD
        calculate_modified_duration_InlD calculate_convexity_InlD)

lemma construct_absent:
  "cro = None \<or> po = None \<or> mo = None \<Longrightarrow>
     construct newton cro yo mo po pro tpy guess = Inl ValueError"
  by (auto simp: construct_def split: option.splits)

lemma construct_zero_terms:
  "construct newton (Some cr) yo (Some m) (Some p) pro 0 guess = Inl ZeroDivisionError"
  by (simp add: construct_def)

lemma construct_ytm_ValueError_iff:
  "construct newton cro (Some y) mo po pro tpy guess = Inl ValueError
     \<longleftrightarrow> cro = None \<or> po = None \<or> mo = None"
proof
  assume "cro = None \<or> po = None \<or> mo = None"
  then show "construct newton cro (Some y) mo po pro tpy guess = Inl ValueError"
    by (rule construct_absent)
next
  assume v: "construct newton cro (Some y) mo po pro tpy guess = Inl ValueError"
  show "cro = None \<or> po = None \<or> mo = None"
  proof (rule ccontr)
    assume "\<not> ?thesis"
    then obtain cr p m where s: "cro = Some cr" "po = Some p" "mo = Some m" by auto
    show False
    proof (cases "tpy = 0")
      case True
      with v s show False by (simp add: construct_zero_terms)
    next
      case False
      with v s have "construct_tail newton (initial_terms cr m p tpy guess) (Some y) pro = Inl ValueError"
        by (simp add: construct_Some)
      from construct_tail_ytm_InlD[OF this] show False by simp
    qed
  qed
qed

lemma construct_neither:
  "tpy \<noteq> 0 \<Longrightarrow> construct newton (Some cr) None (Some m) (Some p) None tpy guess = Inl ValueError"
  by (simp add: construct_Some construct_tail_def)

text \<open>What a successful construction has established.\<close>

lemma construct_tail_InrD:
  assumes "construct_tail newton b0 yo pro = Inr b" and t: "terms_per_year b0 \<noteq> 0"
  shows "discount b0 (ytm_annual b) \<noteq> 0"
    and "price b \<noteq> 0"
    and "b = derived b0 (ytm_annual b) (price b)"
    and "case yo of Some y \<Rightarrow> ytm_annual b = y
         | None \<Rightarrow> (case pro of Some target \<Rightarrow>
                        calculate_ytm_from_price newton b0 target = Inr (ytm_annual b)
                     | None \<Rightarrow> False)"
    and "case pro of Some pr \<Rightarrow> price b = pr
         | None \<Rightarrow> calculate_price_from_ytm b0 (ytm_annual b) = Inr (price b)"
proof -
  from assms(1) obtain y pr mac md cx where
    y: "(case yo of Some y \<Rightarrow> Inr y
         | None \<Rightarrow> (case pro of Some pr \<Rightarrow> calculate_ytm_from_price newton b0 pr
                     | None \<Rightarrow> Inl ValueError)) = Inr y"
    and pr: "(case pro of None \<Rightarrow> calculate_price_from_ytm (b0\<lparr>ytm_annual := y\<rparr>) y
              | Some pr \<Rightarrow> Inr pr) = Inr pr"
    and mac: "calculate_macaulay_duration (b0\<lparr>ytm_annual := y, price := pr\<rparr>) = Inr mac"
    and md: "calculate_modified_duration
               (b0\<lparr>ytm_annual := y, price := pr, macaulay_duration := mac\<rparr>) = Inr md"
    and cx: "calculate_convexity
               (b0\<lparr>ytm_annual := y, price := pr, macaulay_duration := mac,
                    modified_duration := md\<rparr>) = Inr cx"
    and b: "b = b0\<lparr>ytm_annual := y, price := pr, macaulay_duration := mac,
                    modified_duration := md, convexity := cx\<rparr>"
    by (auto simp: construct_tail_def Let_def bind_res_eq_Inr split: if_splits)
  from calculate_modified_duration_InrD[OF md] have x: "discount b0 y \<noteq> 0" by simp
  from calculate_macaulay_duration_InrD[OF mac] have p0: "pr \<noteq> 0" by simp
  note m = metrics_ok[OF t x p0]
  from mac m(1) have mac': "mac = macaulay_numerator b0 y / pr" by simp
  from md m(2)[where mac=mac] have md': "md = mac / discount b0 y" by simp
  from cx m(3)[where mac=mac and md=md]
  have cx': "cx = convexity_numerator b0 y / (pr * (terms_per_year b0)\<^sup>2)"
    by simp
  have yb: "ytm_annual b = y" and pb: "price b = pr" using b by simp_all
  show "discount b0 (ytm_annual b) \<noteq> 0" using x yb by simp
  show "price b \<noteq> 0" using p0 pb by simp
  show "b = derived b0 (ytm_annual b) (price b)"
    unfolding yb pb using b mac' md' cx' by (simp add: derived_def)
  show "case yo of Some y \<Rightarrow> ytm_annual b = y
        | None \<Rightarrow> (case pro of Some target \<Rightarrow>
                       calculate_ytm_from_price newton b0 target = Inr (ytm_annual b)
                    | None \<Rightarrow> False)"
    using y yb by (auto split: option.splits)
  show "case pro of Some pr \<Rightarrow> price b = pr
        | None \<Rightarrow> calculate_price_from_ytm b0 (ytm_annual b) = Inr (price b)"
    using pr yb pb by (auto split: option.splits)
qed

lemma derived_fixed [simp]:
  "coupon_rate (derived b y pr) = coupon_rate b"
  "maturity (derived b y pr) = maturity b"
  "par (derived b y pr) = par b"
  "terms_per_year (derived b y pr) = terms_per_year b"
  "init_guess (derived b y pr) = init_guess b"
  "coupon_payment (derived b y pr) = coupon_payment b"
  "total_periods (derived b y pr) = total_periods b"
  "ytm_annual (derived b y pr) = y"
  "price (derived b y pr) = pr"
  by (simp_all add: derived_def)

lemma derived_metrics [simp]:
  "macaulay_duration (derived b y pr) = macaulay_numerator b y / pr"
  "modified_duration (derived b y pr) = macaulay_numerator b y / pr / discount b y"
  "convexity (derived b y pr) = convexity_numerator b y / (pr * (terms_per_year b)\<^sup>2)"
  by (simp_all add: derived_def)

lemma derived_reads [simp]:
  "discount (derived b y pr) z = discount b z"
  "price_formula (derived b y pr) z = price_formula b z"
  "macaulay_numerator (derived b y pr) z = macaulay_numerator b z"
  "convexity_numerator (derived b y pr) z = convexity_numerator b z"
  "calculate_price_from_ytm (derived b y pr) z = calculate_price_from_ytm b z"
  by (simp_all add: derived_def)

lemma derived_formulas:
  "derived b y (price_formula b y)
    = b\<lparr>ytm_annual := y, price := price_formula b y,
         macaulay_duration := macaulay_formula b y,
         modified_duration := modified_formula b y,
         convexity := convexity_formula b y\<rparr>"
  by (simp add: derived_def macaulay_formula_def modified_formula_def convexity_formula_def)

lemma initial_terms_sel [simp]:
  "coupon_rate (initial_terms cr m p tpy guess) = cr"
  "maturity (initial_terms cr m p tpy guess) = m"
  "par (initial_terms cr m p tpy guess) = p"
  "terms_per_year (initial_terms cr m p tpy guess) = tpy"
  "init_guess (initial_terms cr m p tpy guess) = guess"
  "coupon_payment (initial_terms cr m p tpy guess) = cr * p / tpy"
  "total_periods (initial_terms cr m p tpy guess) = py_int (m * tpy)"
  by (simp_all add: initial_terms_def)

lemma ytm_equation_price:
  "ytm_equation b target y = bind_res (calculate_price_from_ytm b y) (\<lambda>v. Inr (v - target))"
  by (simp add: ytm_equation_def calculate_price_from_ytm_def bind_res_def split: sum.splits)

lemma construct_InrE:
  assumes "construct newton cro yo mo po pro tpy guess = Inr b"
  obtains cr m p where "cro = Some cr" and "mo = Some m" and "po = Some p" and "tpy \<noteq> 0"
    and "b = derived (initial_terms cr m p tpy guess) (ytm_annual b) (price b)"
    and "discount b (ytm_annual b) \<noteq> 0" and "price b \<noteq> 0"
    and "\<And>y. yo = Some y \<Longrightarrow> ytm_annual b = y"
    and "\<And>pr. pro = Some pr \<Longrightarrow> price b = pr"
    and "pro = None \<Longrightarrow> calculate_price_from_ytm b (ytm_annual b) = Inr (price b)"
proof -
  from assms obtain cr m p where s: "cro = Some cr" "mo = Some m" "po = Some p"
    by (auto simp: construct_def split: option.splits)
  have t: "tpy \<noteq> 0"
    using assms s by (auto simp: construct_zero_terms)
  define b0 where "b0 = initial_terms cr m p tpy guess"
  have t0: "terms_per_year b0 \<noteq> 0"
    using t by (simp add: b0_def)
  from assms s t have tl: "construct_tail newton b0 yo pro = Inr b"
    by (simp add: construct_Some b0_def)
  note d = construct_tail_InrD[OF tl t0]
  have b: "b = derived b0 (ytm_annual b) (price b)" by (rule d(3))
  have x: "discount b (ytm_annual b) \<noteq> 0"
    by (subst b) (simp add: d(1))
  have y: "ytm_annual b = y" if "yo = Some y" for y
    using d(4) that by simp
  have pr: "price b = pr" if "pro = Some pr" for pr
    using d(5) that by simp
  have c: "calculate_price_from_ytm b (ytm_annual b) = Inr (price b)" if "pro = None"
  proof -
    have "calculate_price_from_ytm b (ytm_annual b) = calculate_price_from_ytm b0 (ytm_annual b)"
      by (subst b) simp
    with d(5) that show ?thesis by simp
  qed
  show thesis
    using that[OF s t b[unfolded b0_def] x d(2) y pr c] by blast
qed

lemma construct_price_ok:
  assumes "tpy \<noteq> 0"
    and "newton (ytm_equation (initial_terms cr m p tpy guess) pr) guess = Inr y"
    and "discount (initial_terms cr m p tpy guess) y \<noteq> 0" and "pr \<noteq> 0"
  shows "construct newton (Some cr) None (Some m) (Some p) (Some pr) tpy guess
     = Inr (derived (initial_terms cr m p tpy guess) y pr)"
proof -
  have t: "terms_per_year (initial_terms cr m p tpy guess) \<noteq> 0"
    using assms(1) by simp
  have "construct newton (Some cr) None (Some m) (Some p) (Some pr) tpy guess
      = construct_tail newton (initial_terms cr m p tpy guess) None (Some pr)"
    by (rule construct_Some[OF assms(1)])
  also have "\<dots> = Inr (derived (initial_terms cr m p tpy guess) y pr)"
    by (simp add: construct_tail_def Let_def calculate_ytm_from_price_def assms(2)
        metrics_ok[OF t assms(3) assms(4)] derived_def)
  finally show ?thesis .
qed

lemma construct_price_raises:
  assumes "tpy \<noteq> 0"
    and "newton (ytm_equation (initial_terms cr m p tpy guess) pr) guess = Inl e"
  shows "construct newton (Some cr) None (Some m) (Some p) (Some pr) tpy guess = Inl e"
  by (simp add: construct_Some[OF assms(1)] construct_tail_def calculate_ytm_from_price_def
      assms(2))

lemma construct_terms_ok:
  assumes "construct newton cro yo mo po pro tpy guess = Inr b"
  shows "terms_ok b"
proof -
  from assms obtain cr m p where t: "tpy \<noteq> 0"
    and b: "b = derived (initial_terms cr m p tpy guess) (ytm_annual b) (price b)"
    by (rule construct_InrE)
  have "terms_ok b = terms_ok (initial_terms cr m p tpy guess)"
    by (subst b) (simp add: terms_ok_def)
  then show ?thesis using t by (simp add: terms_ok_def)
qed

lemma set_ytm_fixed:
  assumes "set_ytm b y = (e, b')"
  shows "coupon_rate b' = coupon_rate b \<and> maturity b' = maturity b \<and> par b' = par b
    \<and> terms_per_year b' = terms_per_year b \<and> init_guess b' = init_guess b
    \<and> coupon_payment b' = coupon_payment b \<and> total_periods b' = total_periods b
    \<and> ytm_annual b' = y"
  using assms by (auto simp: set_ytm_def Let_def split: sum.splits)

lemma constructed_terms_ok: "constructed newton b \<Longrightarrow> terms_ok b"
proof (induction rule: constructed.induct)
  case (by_init cr y m p pr tpy guess b)
  then show ?case by (rule construct_terms_ok)
next
  case (by_set_ytm b y e b')
  from set_ytm_fixed[OF by_set_ytm.hyps(2)] by_set_ytm.IH show ?case
    by (simp add: terms_ok_def)
qed

subsection \<open>Arithmetic of the formulas\<close>

lemma sum_int_step:
  fixes g :: "int \<Rightarrow> real"
  assumes "0 \<le> n"
  shows "(\<Sum>i = 1..n + 1. g i) = (\<Sum>i = 1..n. g i) + g (n + 1)"
proof -
  have "{1..n + 1} = insert (n + 1) {1..n}"
    using assms by auto
  then show ?thesis by simp
qed

lemma par_identity:
  fixes x p :: real
  assumes "x \<noteq> 0" and "0 \<le> n"
  shows "(\<Sum>i = 1..n. (x - 1) * p / x powi i) + p / x powi n = p"
  using assms(2)
proof (induction n rule: int_ge_induct)
  case base
  show ?case by simp
next
  case (step k)
  have pw: "x powi (k + 1) = x powi k * x"
    using assms(1) by (simp add: power_int_add)
  have "(\<Sum>i = 1..k + 1. (x - 1) * p / x powi i) + p / x powi (k + 1)
      = (\<Sum>i = 1..k. (x - 1) * p / x powi i) + ((x - 1) * p / x powi (k + 1) + p / x powi (k + 1))"
    using step.hyps by (simp add: sum_int_step)
  also have "(x - 1) * p / x powi (k + 1) + p / x powi (k + 1) = p / x powi k"
    using assms(1) unfolding pw by (simp add: field_simps)
  finally show ?case using step.IH by simp
qed

lemma py_int_nonneg: "0 \<le> x \<Longrightarrow> 0 \<le> py_int x"
  by (simp add: py_int_def)

lemma py_int_zero: "0 \<le> x \<Longrightarrow> x < 1 \<Longrightarrow> py_int x = 0"
  by (simp add: py_int_def floor_eq_iff)

lemma py_int_ge_1: "1 \<le> x \<Longrightarrow> 1 \<le> py_int x"
  by (simp add: py_int_def)

lemma price_formula_par:
  assumes "tpy \<noteq> 0" and "1 + c / tpy \<noteq> 0" and "0 \<le> m * tpy"
  shows "price_formula (initial_terms c m p tpy guess) c = p"
proof -
  have cp: "c * p / tpy = (1 + c / tpy - 1) * p"
    using assms(1) by (simp add: field_simps)
  show ?thesis
    unfolding price_formula_def discount_def initial_terms_sel cp
    by (rule par_identity[OF assms(2) py_int_nonneg[OF assms(3)]])
qed

lemma price_formula_zero_coupon:
  assumes "coupon_payment b = 0"
  shows "price_formula b y = par b / discount b y powi total_periods b"
  using assms by (simp add: price_formula_def)

lemma macaulay_numerator_zero_coupon:
  assumes "coupon_payment b = 0"
  shows "macaulay_numerator b y = maturity b * (par b / discount b y powi total_periods b)"
  using assms by (simp add: macaulay_numerator_def)

lemma price_formula_no_periods:
  assumes "total_periods b = 0"
  shows "price_formula b y = par b"
  using assms by (simp add: price_formula_def)

lemma calculate_price_from_ytm_no_periods:
  assumes "terms_per_year b \<noteq> 0" and "total_periods b = 0"
  shows "calculate_price_from_ytm b y = Inr (par b)"
  using assms by (simp add: calculate_price_from_ytm_def py_range_def)

lemma macaulay_numerator_no_periods:
  assumes "total_periods b = 0"
  shows "macaulay_numerator b y = maturity b * par b"
  using assms by (simp add: macaulay_numerator_def)

lemma price_formula_pos:
  assumes "0 \<le> coupon_payment b" and "0 < par b" and "0 < discount b y"
  shows "0 < price_formula b y"
proof -
  have "0 \<le> (\<Sum>i = 1..total_periods b. coupon_payment b / discount b y powi i)"
    using assms(1,3) by (intro sum_nonneg divide_nonneg_pos zero_less_power_int)
  moreover have "0 < par b / discount b y powi total_periods b"
    using assms(2,3) by (intro divide_pos_pos zero_less_power_int)
  ultimately show ?thesis by (simp add: price_formula_def)
qed

lemma price_formula_strict_antimono:
  assumes cp: "0 \<le> coupon_payment b" and p: "0 < par b" and n: "1 \<le> total_periods b"
    and x1: "0 < discount b y1" and lt: "discount b y1 < discount b y2"
  shows "price_formula b y2 < price_formula b y1"
proof -
  have x2: "0 < discount b y2" using x1 lt by simp
  have "(\<Sum>i = 1..total_periods b. coupon_payment b / discount b y2 powi i)
      \<le> (\<Sum>i = 1..total_periods b. coupon_payment b / discount b y1 powi i)"
  proof (rule sum_mono)
    fix i assume "i \<in> {1..total_periods b}"
    then have i: "0 \<le> i" by simp
    have "discount b y1 powi i \<le> discount b y2 powi i"
      using lt x1 i by (intro power_int_mono) simp_all
    then show "coupon_payment b / discount b y2 powi i \<le> coupon_payment b / discount b y1 powi i"
      using cp x1 x2 by (intro divide_left_mono mult_pos_pos zero_less_power_int)
  qed
  moreover have "par b / discount b y2 powi total_periods b
      < par b / discount b y1 powi total_periods b"
  proof -
    have "discount b y1 powi total_periods b < discount b y2 powi total_periods b"
      using lt x1 n by (intro power_int_strict_mono) simp_all
    then show ?thesis
      using p x1 x2 by (intro divide_strict_left_mono mult_pos_pos zero_less_power_int)
  qed
  ultimately show ?thesis by (simp add: price_formula_def)
qed

lemma discount_strict_mono:
  assumes "0 < terms_per_year b" and "y1 < y2"
  shows "discount b y1 < discount b y2"
  using assms by (simp add: discount_def divide_strict_right_mono)

subsection \<open>Concrete runs\<close>

text \<open>The definitions a concrete run unfolds; the simplifier evaluates the rest.\<close>

lemmas run_defs = construct_def set_ytm_def dv01_def calculate_price_from_ytm_def
  calculate_macaulay_duration_def calculate_modified_duration_def calculate_convexity_def
  py_int_def py_range_def Let_def upto.simps power_divide

lemma construct_q2BondB:
  "construct newton (Some (9 / 100)) (Some (2 / 25)) (Some 2) (Some 100) (Some 100) 2 (1 / 20)
     = Inr q2BondB"
  by (simp add: run_defs q2BondB_def)

lemma construct_zero_coupon_1y:
  "construct newton (Some 0) (Some 0) (Some 1) (Some 100) None 2 (1 / 20) = Inr zero_coupon_1y"
  by (simp add: run_defs zero_coupon_1y_def)

lemma construct_par_bond_1y:
  "construct newton (Some (3 / 50)) (Some (3 / 50)) (Some 1) (Some 100) None 2 (1 / 20)
     = Inr par_bond_1y"
  by (simp add: run_defs par_bond_1y_def)

lemma construct_half_year_bond:
  "construct newton (Some (1 / 20)) (Some (1 / 20)) (Some (1 / 2)) (Some 100) None 2 (1 / 20)
     = Inr half_year_bond"
  by (simp add: run_defs half_year_bond_def)

lemma construct_short_bond:
  "construct newton (Some (1 / 20)) (Some (1 / 20)) (Some (1 / 4)) (Some 100) None 2 (1 / 20)
     = Inr short_bond"
  by (simp add: run_defs short_bond_def)

lemma construct_mispriced_bond:
  "construct newton (Some 0) (Some 0) (Some 1) (Some 100) (Some 50) 1 (1 / 20)
     = Inr mispriced_bond"
  by (simp add: run_defs mispriced_bond_def)

subsection \<open>States whose price comes from the yield\<close>

lemma priced_from_yield_constructed:
  "priced_from_yield newton b \<Longrightarrow> constructed newton b"
  by (induction rule: priced_from_yield.induct) (auto intro: constructed.intros)

lemma priced_from_yield_code:
  assumes "priced_from_yield newton b"
  shows "calculate_price_from_ytm b (ytm_annual b) = Inr (price b)"
    and "discount b (ytm_annual b) \<noteq> 0"
  using assms
proof (induction rule: priced_from_yield.induct)
  case (from_ytm cr y m p tpy guess b)
  {
    case 1
    from from_ytm show ?case by (auto elim: construct_InrE)
  next
    case 2
    from from_ytm show ?case by (auto elim: construct_InrE)
  }
next
  case (from_exact_root cr m p target tpy guess b)
  {
    case 1
    from from_exact_root(1) have "price b = target"
      by (auto elim: construct_InrE)
    moreover from from_exact_root(2)
    obtain v where "calculate_price_from_ytm b (ytm_annual b) = Inr v" and "v - target = 0"
      by (auto simp: ytm_equation_price bind_res_eq_Inr)
    ultimately show ?case by simp
  next
    case 2
    from from_exact_root(1) show ?case by (auto elim: construct_InrE)
  }
next
  case (after_set_ytm b0 y b)
  from set_ytm_NoneD[OF after_set_ytm(2)]
  have t: "terms_per_year b0 \<noteq> 0" and x: "discount b0 y \<noteq> 0"
    and p: "price_formula b0 y \<noteq> 0"
    and c: "calculate_price_from_ytm b0 y = Inr (price_formula b0 y)"
    by simp_all
  from set_ytm_ok[OF t x p] after_set_ytm(2)
  have b: "b = derived b0 y (price_formula b0 y)" by simp
  {
    case 1
    show ?case by (simp add: b c)
  next
    case 2
    show ?case by (simp add: b x)
  }
qed

lemma priced_from_yield_formula:
  assumes "priced_from_yield newton b"
  shows "price b = price_formula b (ytm_annual b)"
proof -
  note c = priced_from_yield_code[OF assms]
  from priced_from_yield_constructed[OF assms] have "terms_ok b"
    by (rule constructed_terms_ok)
  then have t: "terms_per_year b \<noteq> 0" by (simp add: terms_ok_def)
  from calculate_price_from_ytm_eq[OF t c(2)] c(1) show ?thesis by simp
qed

lemma dv01_unfold:
  "dv01 b bp = (bind_res (calculate_price_from_ytm b (ytm_annual b + bp / 10000))
                  (\<lambda>new_price. Inr (new_price - price b)), b)"
  by (simp add: dv01_def Let_def)

subsection \<open>Constructions from a price alone, and calls that raise\<close>

lemma calculate_ytm_from_price_immediate:
  "calculate_ytm_from_price immediate_newton b target = Inr (init_guess b)"
  by (simp add: calculate_ytm_from_price_def immediate_newton_def)

lemma construct_off_market_bond:
  "construct immediate_newton (Some (1 / 20)) None (Some (1 / 4)) (Some 100) (Some 50) 2 (1 / 20)
     = Inr off_market_bond"
  by (simp add: run_defs calculate_ytm_from_price_immediate off_market_bond_def)

lemma construct_solved_par_bond:
  "construct immediate_newton (Some (1 / 20)) None (Some 1) (Some 100) (Some 100) 2 (1 / 20)
     = Inr solved_par_bond"
  by (simp add: run_defs calculate_ytm_from_price_immediate solved_par_bond_def)

lemma set_ytm_price_raises:
  "calculate_price_from_ytm b y = Inl e \<Longrightarrow> set_ytm b y = (Some e, b\<lparr>ytm_annual := y\<rparr>)"
  by (simp add: set_ytm_def Let_def)

lemma ytm_equation_derived [simp]:
  "ytm_equation (derived b y pr) target z = ytm_equation b target z"
  by (simp add: ytm_equation_price)

text \<open>What a construction from a price alone stores, for every root finder.\<close>

lemma construct_price_only_InrD:
  assumes "construct newton cro None mo po (Some target) tpy guess = Inr b"
  shows "price b = target"
    and "newton (ytm_equation b target) (init_guess b) = Inr (ytm_annual b)"
    and "\<exists>r. ytm_equation b target (ytm_annual b) = Inr r
           \<and> calculate_price_from_ytm b (ytm_annual b) = Inr (price b + r)"
proof -
  from assms obtain cr m p where s: "cro = Some cr" "mo = Some m" "po = Some p"
    by (auto simp: construct_def split: option.splits)
  have t: "tpy \<noteq> 0"
    using assms s by (auto simp: construct_zero_terms)
  define b0 where "b0 = initial_terms cr m p tpy guess"
  have t0: "terms_per_year b0 \<noteq> 0" using t by (simp add: b0_def)
  from assms s t have tl: "construct_tail newton b0 None (Some target) = Inr b"
    by (simp add: construct_Some b0_def)
  note d = construct_tail_InrD[OF tl t0]
  have b: "b = derived b0 (ytm_annual b) (price b)" by (rule d(3))
  from d(5) show pr: "price b = target" by simp
  from d(4) have n: "newton (ytm_equation b0 target) (init_guess b0) = Inr (ytm_annual b)"
    by (simp add: calculate_ytm_from_price_def)
  have eq: "ytm_equation b target = ytm_equation b0 target"
    by (subst b) (simp add: fun_eq_iff)
  have g: "init_guess b = init_guess b0"
    by (subst b) simp
  show "newton (ytm_equation b target) (init_guess b) = Inr (ytm_annual b)"
    using n by (simp add: eq g)
  have x: "discount b0 (ytm_annual b) \<noteq> 0" by (rule d(1))
  have c: "calculate_price_from_ytm b (ytm_annual b) = Inr (price_formula b0 (ytm_annual b))"
    by (subst b) (simp add: calculate_price_from_ytm_eq[OF t0 x])
  have "ytm_equation b target (ytm_annual b) = Inr (price_formula b0 (ytm_annual b) - target)"
    by (simp add: ytm_equation_price c)
  with c pr show "\<exists>r. ytm_equation b target (ytm_annual b) = Inr r
           \<and> calculate_price_from_ytm b (ytm_annual b) = Inr (price b + r)"
    by simp
qed

text \<open>No root finder can price the bond without a period at 50.\<close>

lemma off_market_any_solver:
  assumes "construct newton (Some cr) None (Some (1 / 4)) (Some 100) (Some 50) 2 guess = Inr b"
  shows "price b = 50 \<and> calculate_price_from_ytm b (ytm_annual b) = Inr 100"
proof -
  from assms have b: "b = derived (initial_terms cr (1 / 4) 100 2 guess) (ytm_annual b) (price b)"
    and pr: "price b = 50"
    by (auto elim: construct_InrE)
  have n: "total_periods (initial_terms cr (1 / 4) 100 2 guess) = 0"
    by (simp add: py_int_def)
  have "calculate_price_from_ytm b (ytm_annual b) = Inr 100"
    by (subst b) (simp add: calculate_price_from_ytm_no_periods[OF _ n])
  with pr show ?thesis by simp
qed

lemma construct_price_returns:
  assumes "tpy \<noteq> 0" and "pr \<noteq> 0"
    and "newton (ytm_equation (initial_terms cr m p tpy guess) pr) guess = Inr y"
    and "1 + y / tpy \<noteq> 0"
  shows "\<exists>b. construct newton (Some cr) None (Some m) (Some p) (Some pr) tpy guess = Inr b"
proof -
  have "construct newton (Some cr) None (Some m) (Some p) (Some pr) tpy guess
      = Inr (derived (initial_terms cr m p tpy guess) y pr)"
    using assms by (intro construct_price_ok) (simp_all add: discount_def)
  then show ?thesis by blast
qed

section \<open>The claims\<close>

subsection \<open>C1: yield and price both supplied\<close>

text \<open>
  C1, as amended. When both \<^verbatim>\<open>ytm\<close> and \<^verbatim>\<open>price\<close> are passed to the constructor, the
  instance stores both as given: the stored yield is the yield passed in and the stored
  price is the price passed in; the price is not recomputed from the yield. Such a
  construction returns whenever \<^verbatim>\<open>terms_per_year\<close>, the discount factor
  \<open>1 + ytm / terms_per_year\<close> and the price are all nonzero.
\<close>

theorem both_supplied_stored_as_given:
  "(\<forall>b. construct newton cro (Some y) mo po (Some pr) tpy guess = Inr b
        \<longrightarrow> ytm_annual b = y \<and> price b = pr)
   \<and> (tpy \<noteq> 0 \<and> 1 + y / tpy \<noteq> 0 \<and> pr \<noteq> 0
        \<longrightarrow> (\<exists>b. construct newton (Some cr) (Some y) (Some m) (Some p) (Some pr) tpy guess
                   = Inr b))"
proof (intro conjI allI impI)
  fix b
  assume c: "construct newton cro (Some y) mo po (Some pr) tpy guess = Inr b"
  then show "ytm_annual b = y" and "price b = pr"
    by (auto elim: construct_InrE)
next
  assume a: "tpy \<noteq> 0 \<and> 1 + y / tpy \<noteq> 0 \<and> pr \<noteq> 0"
  then have "discount (initial_terms cr m p tpy guess) y \<noteq> 0"
    by (simp add: discount_def)
  with a show "\<exists>b. construct newton (Some cr) (Some y) (Some m) (Some p) (Some pr) tpy guess = Inr b"
    by (simp add: construct_both_ok)
qed

text \<open>The theorem at the notebook's \<^verbatim>\<open>Bond(0.09, 0.08, 2, 100, 100)\<close>.\<close>

theorem both_supplied_stored_as_given_witness:
  "(2::real) \<noteq> 0 \<and> 1 + (2 / 25) / 2 \<noteq> (0::real) \<and> (100::real) \<noteq> 0
   \<and> (\<exists>b. construct failing_newton (Some (9 / 100)) (Some (2 / 25)) (Some 2) (Some 100)
              (Some 100) 2 (1 / 20) = Inr b
          \<and> ytm_annual b = 2 / 25 \<and> price b = 100)"
  using both_supplied_stored_as_given
    [where newton = failing_newton and cro = "Some (9 / 100)" and cr = "9 / 100"
       and y = "2 / 25" and mo = "Some 2" and m = 2 and po = "Some 100" and p = 100
       and pr = 100 and tpy = 2 and guess = "1 / 20"]
  by auto

text \<open>
  C1 as stated fails at the notebook's \<^verbatim>\<open>q2BondB = Bond(0.09, 0.08, 2, 100, 100)\<close>: the
  stored price is the 100 passed in, and the price computed from the stored yield of 8%
  is \<open>93053975 / 913952\<close>, about 101.81.
\<close>

theorem both_supplied_price_not_recomputed:
  "construct failing_newton (Some (9 / 100)) (Some (2 / 25)) (Some 2) (Some 100) (Some 100) 2
       (1 / 20) = Inr q2BondB
   \<and> ytm_annual q2BondB = 2 / 25
   \<and> price q2BondB = 100
   \<and> calculate_price_from_ytm q2BondB (2 / 25) = Inr (93053975 / 913952)"
  by (simp add: construct_q2BondB) (simp add: run_defs q2BondB_def)

subsection \<open>C2: the stored price and the stored yield\<close>


lemma construct_par_price_only:
  "construct immediate_newton (Some (1 / 20)) None (Some 1) (Some 100) (Some 100) 2 (1 / 20)
     = Inr \<lparr> coupon_rate = 1 / 20, maturity = 1, par = 100, terms_per_year = 2,
             init_guess = 1 / 20, coupon_payment = 5 / 2, total_periods = 2,
             ytm_annual = 1 / 20, price = 100, macaulay_duration = 81 / 82,
             modified_duration = 1620 / 1681, convexity = 96800 / 68921 \<rparr>"
  by (simp add: run_defs calculate_ytm_from_price_immediate)



subsection \<open>C3: no validation of signs\<close>

text \<open>
  C3, as amended. The constructor does not validate the signs of its arguments. With a
  yield passed in, it raises \<^verbatim>\<open>ValueError\<close> exactly when \<^verbatim>\<open>coupon_rate\<close>, \<^verbatim>\<open>par\<close> or
  \<^verbatim>\<open>maturity\<close> is absent, whatever the values of \<^verbatim>\<open>terms_per_year\<close>, \<^verbatim>\<open>maturity\<close> and
  \<^verbatim>\<open>par\<close>. With the three present and \<^verbatim>\<open>terms_per_year = 0\<close> it raises
  \<^verbatim>\<open>ZeroDivisionError\<close>, from the division that computes the coupon payment.
\<close>

theorem no_validation_of_signs:
  "(construct newton cro (Some y) mo po pro tpy guess = Inl ValueError
      \<longleftrightarrow> cro = None \<or> po = None \<or> mo = None)
   \<and> construct newton (Some cr) yo (Some m) (Some p) pro 0 guess = Inl ZeroDivisionError"
  by (simp add: construct_ytm_ValueError_iff construct_zero_terms)

text \<open>
  The theorem at \<^verbatim>\<open>Bond(0, 0, 1, -100, terms_per_year=-2)\<close> and at
  \<^verbatim>\<open>Bond(0, 0, 1, 100, terms_per_year=0)\<close>.
\<close>

theorem no_validation_of_signs_witness:
  "construct failing_newton (Some 0) (Some 0) (Some 1) (Some (- 100)) None (- 2) (1 / 20)
      \<noteq> Inl ValueError
   \<and> construct failing_newton (Some 0) (Some 0) (Some 1) (Some 100) None 0 (1 / 20)
      = Inl ZeroDivisionError"
  using no_validation_of_signs
    [where newton = failing_newton and cro = "Some 0" and cr = 0 and y = 0 and yo = "Some 0"
       and mo = "Some 1" and m = 1 and po = "Some (- 100)" and p = 100 and pro = None
       and tpy = "- 2" and guess = "1 / 20"]
  by simp

text \<open>
  C3 as stated fails: the constructor returns an instance for \<^verbatim>\<open>terms_per_year = -2\<close>,
  for \<^verbatim>\<open>maturity = 0\<close>, for \<^verbatim>\<open>maturity = -1\<close> and for \<^verbatim>\<open>par = -100\<close>, and for
  \<^verbatim>\<open>terms_per_year = 0\<close> the exception is \<^verbatim>\<open>ZeroDivisionError\<close>, not \<^verbatim>\<open>ValueError\<close>.
\<close>

theorem nonpositive_terms_accepted:
  "construct failing_newton (Some 0) (Some 0) (Some 1) (Some 100) None (- 2) (1 / 20)
     = Inr \<lparr> coupon_rate = 0, maturity = 1, par = 100, terms_per_year = - 2,
             init_guess = 1 / 20, coupon_payment = 0, total_periods = - 2,
             ytm_annual = 0, price = 100, macaulay_duration = 1,
             modified_duration = 1, convexity = 1 / 2 \<rparr>
   \<and> construct failing_newton (Some 0) (Some 0) (Some 0) (Some 100) None 2 (1 / 20)
     = Inr \<lparr> coupon_rate = 0, maturity = 0, par = 100, terms_per_year = 2,
             init_guess = 1 / 20, coupon_payment = 0, total_periods = 0,
             ytm_annual = 0, price = 100, macaulay_duration = 0,
             modified_duration = 0, convexity = 0 \<rparr>
   \<and> construct failing_newton (Some 0) (Some 0) (Some (- 1)) (Some 100) None 2 (1 / 20)
     = Inr \<lparr> coupon_rate = 0, maturity = - 1, par = 100, terms_per_year = 2,
             init_guess = 1 / 20, coupon_payment = 0, total_periods = - 2,
             ytm_annual = 0, price = 100, macaulay_duration = - 1,
             modified_duration = - 1, convexity = 1 / 2 \<rparr>
   \<and> construct failing_newton (Some 0) (Some 0) (Some 1) (Some (- 100)) None 2 (1 / 20)
     = Inr \<lparr> coupon_rate = 0, maturity = 1, par = - 100, terms_per_year = 2,
             init_guess = 1 / 20, coupon_payment = 0, total_periods = 2,
             ytm_annual = 0, price = - 100, macaulay_duration = 1,
             modified_duration = 1, convexity = 3 / 2 \<rparr>
   \<and> construct failing_newton (Some 0) (Some 0) (Some 1) (Some 100) None 0 (1 / 20)
     = Inl ZeroDivisionError"
  by (simp add: run_defs)

subsection \<open>C4: set_ytm\<close>

text \<open>
  C4, as amended. For every constructed instance and every new yield \<open>y\<close>,
  \<^verbatim>\<open>set_ytm(y)\<close> returns exactly when the discount factor \<open>1 + y / terms_per_year\<close> and
  the price formula at \<open>y\<close> are both nonzero. It then leaves the instance with the yield
  \<open>y\<close>, with price, Macaulay duration, modified duration and convexity equal to their
  formulas at \<open>y\<close>, and with every other attribute unchanged.
\<close>

theorem set_ytm_recomputes:
  assumes "constructed newton b"
  shows "(fst (set_ytm b y) = None \<longleftrightarrow> discount b y \<noteq> 0 \<and> price_formula b y \<noteq> 0)
    \<and> (discount b y \<noteq> 0 \<and> price_formula b y \<noteq> 0 \<longrightarrow>
         set_ytm b y
           = (None, b\<lparr>ytm_annual := y, price := price_formula b y,
                       macaulay_duration := macaulay_formula b y,
                       modified_duration := modified_formula b y,
                       convexity := convexity_formula b y\<rparr>))"
proof -
  from constructed_terms_ok[OF assms] have t: "terms_per_year b \<noteq> 0"
    by (simp add: terms_ok_def)
  have ok: "set_ytm b y = (None, derived b y (price_formula b y))"
    if "discount b y \<noteq> 0" and "price_formula b y \<noteq> 0"
    using set_ytm_ok[OF t that] .
  have "discount b y \<noteq> 0 \<and> price_formula b y \<noteq> 0" if "fst (set_ytm b y) = None"
  proof -
    from that have "set_ytm b y = (None, snd (set_ytm b y))"
      by (metis prod.collapse)
    from set_ytm_NoneD[OF this] show ?thesis by simp
  qed
  with ok show ?thesis
    by (auto simp: derived_formulas)
qed

text \<open>
  The theorem at \<^verbatim>\<open>Bond(0.06, 0.06, 1, 100).set_ytm(0.08)\<close>, where the new price is
  \<open>66325 / 676\<close>.
\<close>

theorem set_ytm_recomputes_witness:
  "constructed failing_newton par_bond_1y
   \<and> discount par_bond_1y (2 / 25) \<noteq> 0
   \<and> price_formula par_bond_1y (2 / 25) \<noteq> 0
   \<and> fst (set_ytm par_bond_1y (2 / 25)) = None
   \<and> set_ytm par_bond_1y (2 / 25)
       = (None, par_bond_1y\<lparr>ytm_annual := 2 / 25,
                   price := price_formula par_bond_1y (2 / 25),
                   macaulay_duration := macaulay_formula par_bond_1y (2 / 25),
                   modified_duration := modified_formula par_bond_1y (2 / 25),
                   convexity := convexity_formula par_bond_1y (2 / 25)\<rparr>)
   \<and> price (snd (set_ytm par_bond_1y (2 / 25))) = 66325 / 676"
proof -
  have c: "constructed failing_newton par_bond_1y"
    by (rule constructed.by_init) (rule construct_par_bond_1y)
  have x: "discount par_bond_1y (2 / 25) \<noteq> 0"
    by (simp add: discount_def par_bond_1y_def)
  have "0 < price_formula par_bond_1y (2 / 25)"
    by (rule price_formula_pos) (simp_all add: discount_def par_bond_1y_def)
  then have p: "price_formula par_bond_1y (2 / 25) \<noteq> 0" by simp
  have v: "price (snd (set_ytm par_bond_1y (2 / 25))) = 66325 / 676"
    by (simp add: run_defs par_bond_1y_def)
  from set_ytm_recomputes[OF c, of "2 / 25"] c x p v show ?thesis by simp
qed

text \<open>
  C4 as stated fails at \<^verbatim>\<open>Bond(0.06, 0.06, 1, 100).set_ytm(-2.0)\<close>: the discount factor
  is zero, the price computation raises \<^verbatim>\<open>ZeroDivisionError\<close>, and the instance is left
  with the yield \<open>-2\<close> and the price and duration of the old yield.
\<close>

theorem set_ytm_raises_half_way:
  "construct failing_newton (Some (3 / 50)) (Some (3 / 50)) (Some 1) (Some 100) None 2 (1 / 20)
     = Inr par_bond_1y
   \<and> set_ytm par_bond_1y (- 2)
     = (Some ZeroDivisionError, par_bond_1y\<lparr>ytm_annual := - 2\<rparr>)
   \<and> ytm_annual (par_bond_1y\<lparr>ytm_annual := - 2\<rparr>) = - 2
   \<and> price (par_bond_1y\<lparr>ytm_annual := - 2\<rparr>) = 100
   \<and> macaulay_duration (par_bond_1y\<lparr>ytm_annual := - 2\<rparr>) = 203 / 206"
  by (simp add: construct_par_bond_1y) (simp add: run_defs par_bond_1y_def)

subsection \<open>C5: a coupon rate equal to the yield\<close>



subsection \<open>C6: the duration of a zero-coupon bond\<close>

text \<open>
  C6, as amended. Let the coupon rate be zero and the yield \<open>y\<close> passed to the
  constructor have a positive discount factor \<open>1 + y / terms_per_year\<close>. If no price
  is passed, every instance the constructor returns has a Macaulay duration equal to
  its maturity, in exact arithmetic, and the constructor does return one whenever
  \<^verbatim>\<open>terms_per_year\<close> and par are not zero. If a price is passed too, the Macaulay
  duration times that price is the maturity times the price formula at \<open>y\<close>: the
  duration is the maturity scaled by the formula price over the price passed in.
\<close>

theorem zero_coupon_macaulay_duration:
  assumes "0 < 1 + y / tpy"
  shows "(\<forall>b. construct newton (Some 0) (Some y) (Some m) (Some p) None tpy guess = Inr b
            \<longrightarrow> macaulay_duration b = m)
    \<and> (tpy \<noteq> 0 \<and> p \<noteq> 0
         \<longrightarrow> (\<exists>b. construct newton (Some 0) (Some y) (Some m) (Some p) None tpy guess = Inr b))
    \<and> (\<forall>b. construct newton (Some 0) (Some y) (Some m) (Some p) (Some pr) tpy guess = Inr b
            \<longrightarrow> macaulay_duration b * pr = m * price_formula b y)"
proof (intro conjI allI impI)
  fix b
  assume c: "construct newton (Some 0) (Some y) (Some m) (Some p) None tpy guess = Inr b"
  define b0 where "b0 = initial_terms 0 m p tpy guess"
  from c have b: "b = derived b0 (ytm_annual b) (price b)" and y: "ytm_annual b = y"
    and t: "tpy \<noteq> 0" and p0: "price b \<noteq> 0"
    and x: "discount b (ytm_annual b) \<noteq> 0"
    and pr: "calculate_price_from_ytm b (ytm_annual b) = Inr (price b)"
    unfolding b0_def by (auto elim: construct_InrE)
  have cp: "coupon_payment b0 = 0" by (simp add: b0_def)
  have x0: "discount b0 y \<noteq> 0"
    using x y by (subst (asm) b) simp
  have t0: "terms_per_year b0 \<noteq> 0" using t by (simp add: b0_def)
  have "calculate_price_from_ytm b0 y = Inr (price b)"
    using pr y by (subst (asm) b) simp
  with calculate_price_from_ytm_eq[OF t0 x0]
  have pb: "price b = par b0 / discount b0 y powi total_periods b0"
    by (simp add: price_formula_zero_coupon[OF cp])
  have "macaulay_duration b = macaulay_numerator b0 y / price b"
    using y by (subst b) simp
  also have "\<dots> = maturity b0 * price b / price b"
    by (simp add: macaulay_numerator_zero_coupon[OF cp] pb)
  also have "\<dots> = m"
    using p0 by (simp add: b0_def)
  finally show "macaulay_duration b = m" .
next
  assume a: "tpy \<noteq> 0 \<and> p \<noteq> 0"
  define b0 where "b0 = initial_terms 0 m p tpy guess"
  have cp: "coupon_payment b0 = 0" by (simp add: b0_def)
  have x0: "discount b0 y \<noteq> 0" using assms by (simp add: b0_def discount_def)
  have "par b0 = p" by (simp add: b0_def)
  with a x0 have "price_formula b0 y \<noteq> 0"
    by (simp add: price_formula_zero_coupon[OF cp])
  with a x0 have "construct newton (Some 0) (Some y) (Some m) (Some p) None tpy guess
      = Inr (derived b0 y (price_formula b0 y))"
    unfolding b0_def by (intro construct_ytm_ok) simp_all
  then show "\<exists>b. construct newton (Some 0) (Some y) (Some m) (Some p) None tpy guess = Inr b"
    by blast
next
  fix b
  assume c: "construct newton (Some 0) (Some y) (Some m) (Some p) (Some pr) tpy guess = Inr b"
  define b0 where "b0 = initial_terms 0 m p tpy guess"
  from c have b: "b = derived b0 (ytm_annual b) (price b)" and y: "ytm_annual b = y"
    and pb: "price b = pr" and p0: "price b \<noteq> 0"
    unfolding b0_def by (auto elim: construct_InrE)
  have cp: "coupon_payment b0 = 0" by (simp add: b0_def)
  have m0: "maturity b0 = m" by (simp add: b0_def)
  have "macaulay_duration b = macaulay_numerator b0 y / pr"
    using y pb by (subst b) simp
  then have "macaulay_duration b * pr = macaulay_numerator b0 y"
    using p0 pb by simp
  also have "\<dots> = m * price_formula b0 y"
    by (simp add: macaulay_numerator_zero_coupon[OF cp] price_formula_zero_coupon[OF cp] m0)
  also have "price_formula b0 y = price_formula b y"
    by (subst b) simp
  finally show "macaulay_duration b * pr = m * price_formula b y" .
qed

text \<open>
  The theorem at the notebook's \<^verbatim>\<open>Bond(0, 0.09, 25, 100)\<close> and at
  \<^verbatim>\<open>Bond(0, 0, 1, 100, 50, 1)\<close>.
\<close>

theorem zero_coupon_macaulay_duration_witness:
  "(0::real) < 1 + (9 / 100) / 2 \<and> (2::real) \<noteq> 0 \<and> (100::real) \<noteq> 0
   \<and> (\<exists>b. construct failing_newton (Some 0) (Some (9 / 100)) (Some 25) (Some 100) None 2
             (1 / 20) = Inr b \<and> macaulay_duration b = 25)
   \<and> (0::real) < 1 + 0 / 1
   \<and> construct failing_newton (Some 0) (Some 0) (Some 1) (Some 100) (Some 50) 1 (1 / 20)
       = Inr mispriced_bond
   \<and> macaulay_duration mispriced_bond * 50 = 1 * price_formula mispriced_bond 0"
proof -
  have c: "construct failing_newton (Some 0) (Some 0) (Some 1) (Some 100) (Some 50) 1 (1 / 20)
       = Inr mispriced_bond"
    by (rule construct_mispriced_bond)
  from zero_coupon_macaulay_duration[where y = "9 / 100" and tpy = 2 and newton = failing_newton
      and m = 25 and p = 100 and guess = "1 / 20" and pr = 50]
  have "\<exists>b. construct failing_newton (Some 0) (Some (9 / 100)) (Some 25) (Some 100) None 2
             (1 / 20) = Inr b \<and> macaulay_duration b = 25"
    by auto
  moreover from zero_coupon_macaulay_duration[where y = 0 and tpy = 1
      and newton = failing_newton and m = 1 and p = 100 and guess = "1 / 20" and pr = 50] c
  have "macaulay_duration mispriced_bond * 50 = 1 * price_formula mispriced_bond 0"
    by simp
  ultimately show ?thesis using c by simp
qed

text \<open>
  C6 as stated fails at \<^verbatim>\<open>Bond(0, 0, 1, 100, 50, 1)\<close>: a zero-coupon bond constructed
  with a yield of zero, whose discount factor is 1, and a price of 50. Its maturity is
  1 and its Macaulay duration is \<open>100 / 50 = 2\<close>, since the duration divides by the
  stored price, which is the price passed in.
\<close>

theorem zero_coupon_duration_with_price:
  "construct failing_newton (Some 0) (Some 0) (Some 1) (Some 100) (Some 50) 1 (1 / 20)
       = Inr mispriced_bond
   \<and> coupon_rate mispriced_bond = 0
   \<and> 0 < discount mispriced_bond (ytm_annual mispriced_bond)
   \<and> maturity mispriced_bond = 1
   \<and> macaulay_duration mispriced_bond = 2"
  by (simp add: construct_mispriced_bond) (simp add: mispriced_bond_def discount_def)

subsection \<open>C7: the sign of dv01\<close>

text \<open>
  C7, as amended. Take an instance whose price comes from its yield, with a coupon
  payment that is not negative, a positive par, a positive \<^verbatim>\<open>terms_per_year\<close> and at
  least one whole period, and let the discount factor be positive at the stored yield
  and at the bumped yield. Then \<^verbatim>\<open>dv01(bp)\<close> returns a negative number for every
  \<open>bp > 0\<close> and a positive number for every \<open>bp < 0\<close>.
\<close>

theorem dv01_sign:
  assumes "priced_from_yield newton b"
    and "0 \<le> coupon_payment b" and "0 < par b"
    and "0 < terms_per_year b" and "1 \<le> total_periods b"
    and "0 < discount b (ytm_annual b)"
    and "0 < discount b (ytm_annual b + bp / 10000)"
  shows "\<exists>d. fst (dv01 b bp) = Inr d \<and> (0 < bp \<longrightarrow> d < 0) \<and> (bp < 0 \<longrightarrow> 0 < d)"
proof -
  let ?y = "ytm_annual b" and ?y' = "ytm_annual b + bp / 10000"
  have t: "terms_per_year b \<noteq> 0" using assms(4) by simp
  have x': "discount b ?y' \<noteq> 0" using assms(7) by simp
  from priced_from_yield_formula[OF assms(1)] have pr: "price b = price_formula b ?y" .
  have d: "fst (dv01 b bp) = Inr (price_formula b ?y' - price_formula b ?y)"
    by (simp add: dv01_unfold calculate_price_from_ytm_eq[OF t x'] pr)
  have up: "price_formula b ?y' < price_formula b ?y" if "0 < bp"
  proof -
    from that have "?y < ?y'" by simp
    then have "discount b ?y < discount b ?y'"
      by (rule discount_strict_mono[OF assms(4)])
    with assms show ?thesis by (intro price_formula_strict_antimono)
  qed
  have down: "price_formula b ?y < price_formula b ?y'" if "bp < 0"
  proof -
    from that have "?y' < ?y" by simp
    then have "discount b ?y' < discount b ?y"
      by (rule discount_strict_mono[OF assms(4)])
    with assms show ?thesis by (intro price_formula_strict_antimono)
  qed
  from d up down show ?thesis by auto
qed

text \<open>
  The theorem at \<^verbatim>\<open>Bond(0.05, 0.05, 0.5, 100)\<close>, for \<open>bp = 1\<close> and for \<open>bp = -1\<close>.
\<close>

theorem dv01_sign_witness:
  "priced_from_yield failing_newton half_year_bond
   \<and> 0 \<le> coupon_payment half_year_bond \<and> 0 < par half_year_bond
   \<and> 0 < terms_per_year half_year_bond \<and> 1 \<le> total_periods half_year_bond
   \<and> 0 < discount half_year_bond (ytm_annual half_year_bond)
   \<and> 0 < discount half_year_bond (ytm_annual half_year_bond + 1 / 10000)
   \<and> 0 < discount half_year_bond (ytm_annual half_year_bond + (- 1) / 10000)
   \<and> (\<exists>d. fst (dv01 half_year_bond 1) = Inr d \<and> d < 0)
   \<and> (\<exists>d. fst (dv01 half_year_bond (- 1)) = Inr d \<and> 0 < d)"
proof -
  have h: "priced_from_yield failing_newton half_year_bond"
    by (rule priced_from_yield.from_ytm) (rule construct_half_year_bond)
  have c: "0 \<le> coupon_payment half_year_bond" "0 < par half_year_bond"
    "0 < terms_per_year half_year_bond" "1 \<le> total_periods half_year_bond"
    "0 < discount half_year_bond (ytm_annual half_year_bond)"
    by (simp_all add: half_year_bond_def discount_def)
  have up: "0 < discount half_year_bond (ytm_annual half_year_bond + 1 / 10000)"
    and down: "0 < discount half_year_bond (ytm_annual half_year_bond + (- 1) / 10000)"
    by (simp_all add: half_year_bond_def discount_def)
  from dv01_sign[OF h c up] dv01_sign[OF h c down] h c up down show ?thesis
    by simp
qed

text \<open>
  C7 as stated fails twice. The notebook's \<^verbatim>\<open>q2BondB = Bond(0.09, 0.08, 2, 100, 100)\<close>
  has positive cash flows and a positive bumped discount factor, and its \<^verbatim>\<open>dv01(1)\<close> is
  positive, about 1.7966 (the value the notebook prints), since the stored price is
  the 100 passed in. And \<^verbatim>\<open>Bond(0.05, 0.05, 0.25, 100)\<close> has no whole period, so its
  price does not depend on the yield and its \<^verbatim>\<open>dv01(1)\<close> is zero.
\<close>

theorem dv01_sign_not_always_negative:
  "construct failing_newton (Some (9 / 100)) (Some (2 / 25)) (Some 2) (Some 100) (Some 100) 2
       (1 / 20) = Inr q2BondB
   \<and> 0 < coupon_payment q2BondB \<and> 0 < par q2BondB
   \<and> 0 < discount q2BondB (ytm_annual q2BondB + 1 / 10000)
   \<and> fst (dv01 q2BondB 1) = Inr (30576817802160900 / 17019397076720291)
   \<and> construct failing_newton (Some (1 / 20)) (Some (1 / 20)) (Some (1 / 4)) (Some 100) None 2
       (1 / 20) = Inr short_bond
   \<and> 0 < coupon_payment short_bond \<and> 0 < par short_bond
   \<and> 0 < discount short_bond (ytm_annual short_bond + 1 / 10000)
   \<and> fst (dv01 short_bond 1) = Inr 0"
  by (simp add: construct_q2BondB construct_short_bond)
     (simp add: run_defs discount_def q2BondB_def short_bond_def)

subsection \<open>C8: what dv01 returns and leaves\<close>

text \<open>
  C8, as amended. For every constructed instance and every \<open>bp\<close>, \<^verbatim>\<open>dv01(bp)\<close> leaves
  the instance as it was, every attribute unchanged. Whenever the discount factor at
  the bumped yield \<open>ytm_annual + bp / 10000\<close> is not zero, or the instance has no
  whole period, it returns the price formula at the bumped yield minus the stored
  price.
\<close>

theorem dv01_value_and_frame:
  assumes "constructed newton b"
  shows "snd (dv01 b bp) = b
    \<and> (discount b (ytm_annual b + bp / 10000) \<noteq> 0 \<or> total_periods b = 0 \<longrightarrow>
         fst (dv01 b bp) = Inr (price_formula b (ytm_annual b + bp / 10000) - price b))"
proof -
  from constructed_terms_ok[OF assms] have t: "terms_per_year b \<noteq> 0"
    by (simp add: terms_ok_def)
  have "fst (dv01 b bp) = Inr (price_formula b (ytm_annual b + bp / 10000) - price b)"
    if "discount b (ytm_annual b + bp / 10000) \<noteq> 0"
    using that by (simp add: dv01_unfold calculate_price_from_ytm_eq[OF t])
  moreover have "fst (dv01 b bp) = Inr (price_formula b (ytm_annual b + bp / 10000) - price b)"
    if "total_periods b = 0"
    by (simp add: dv01_unfold calculate_price_from_ytm_no_periods[OF t that]
        price_formula_no_periods[OF that])
  ultimately show ?thesis
    by (auto simp: dv01_unfold)
qed

text \<open>
  The theorem at \<^verbatim>\<open>Bond(0.06, 0.06, 1, 100).dv01(1)\<close> and, for an instance without a whole
  period and a bumped discount factor of zero, at
  \<^verbatim>\<open>Bond(0.05, 0.05, 0.25, 100).dv01(-20500)\<close>.
\<close>

theorem dv01_value_and_frame_witness:
  "constructed failing_newton par_bond_1y
   \<and> snd (dv01 par_bond_1y 1) = par_bond_1y
   \<and> discount par_bond_1y (ytm_annual par_bond_1y + 1 / 10000) \<noteq> 0
   \<and> fst (dv01 par_bond_1y 1)
       = Inr (price_formula par_bond_1y (ytm_annual par_bond_1y + 1 / 10000) - price par_bond_1y)
   \<and> fst (dv01 par_bond_1y 1) = Inr (- (4060100 / 424401201))
   \<and> constructed failing_newton short_bond
   \<and> total_periods short_bond = 0
   \<and> snd (dv01 short_bond (- 20500)) = short_bond
   \<and> fst (dv01 short_bond (- 20500))
       = Inr (price_formula short_bond (ytm_annual short_bond + (- 20500) / 10000)
               - price short_bond)
   \<and> fst (dv01 short_bond (- 20500)) = Inr 0"
proof -
  have c: "constructed failing_newton par_bond_1y"
    by (rule constructed.by_init) (rule construct_par_bond_1y)
  have c': "constructed failing_newton short_bond"
    by (rule constructed.by_init) (rule construct_short_bond)
  have x: "discount par_bond_1y (ytm_annual par_bond_1y + 1 / 10000) \<noteq> 0"
    by (simp add: discount_def par_bond_1y_def)
  have n: "total_periods short_bond = 0"
    by (simp add: short_bond_def)
  have v: "fst (dv01 par_bond_1y 1) = Inr (- (4060100 / 424401201))"
    by (simp add: run_defs par_bond_1y_def)
  have v': "fst (dv01 short_bond (- 20500)) = Inr 0"
    by (simp add: run_defs short_bond_def)
  note th = dv01_value_and_frame[OF c, of 1]
  note th' = dv01_value_and_frame[OF c', of "- 20500"]
  from th have frame: "snd (dv01 par_bond_1y 1) = par_bond_1y" by (rule conjunct1)
  from th x have formula: "fst (dv01 par_bond_1y 1)
       = Inr (price_formula par_bond_1y (ytm_annual par_bond_1y + 1 / 10000) - price par_bond_1y)"
    by blast
  from th' have frame': "snd (dv01 short_bond (- 20500)) = short_bond" by (rule conjunct1)
  from th' n have formula': "fst (dv01 short_bond (- 20500))
       = Inr (price_formula short_bond (ytm_annual short_bond + (- 20500) / 10000)
               - price short_bond)"
    by blast
  from c frame x formula v c' n frame' formula' v' show ?thesis by blast
qed

text \<open>
  C8 as stated fails at \<^verbatim>\<open>Bond(0.06, 0.06, 1, 100).dv01(-20600)\<close>: the bumped yield is
  \<open>-2\<close>, the discount factor is zero, and the call raises \<^verbatim>\<open>ZeroDivisionError\<close> at the
  first coupon, \<^verbatim>\<open>3.0 / 0.0\<close>; it returns nothing.
\<close>

theorem dv01_raises_at_zero_discount:
  "construct failing_newton (Some (3 / 50)) (Some (3 / 50)) (Some 1) (Some 100) None 2 (1 / 20)
     = Inr par_bond_1y
   \<and> ytm_annual par_bond_1y + (- 20600) / 10000 = - 2
   \<and> discount par_bond_1y (- 2) = 0
   \<and> dv01 par_bond_1y (- 20600) = (Inl ZeroDivisionError, par_bond_1y)"
  by (simp add: construct_par_bond_1y) (simp add: run_defs discount_def par_bond_1y_def)

subsection \<open>C9: which constructions fail and which succeed\<close>




subsection \<open>C10: no whole period\<close>

text \<open>
  C10, as amended. Let par, maturity and \<^verbatim>\<open>terms_per_year\<close> be positive with
  \<open>maturity * terms_per_year < 1\<close>, and let a yield \<open>y\<close> with
  \<open>1 + y / terms_per_year\<close> not zero be passed, with no price. Then the constructor
  returns an instance with no period (\<^verbatim>\<open>total_periods = 0\<close>), a price equal to par and a
  Macaulay duration equal to maturity; and on that instance the price-from-yield
  computation returns par for every yield.
\<close>

theorem no_whole_period:
  assumes "0 < p" and "0 < tpy" and "0 < m" and "m * tpy < 1" and "1 + y / tpy \<noteq> 0"
  shows "\<exists>b. construct newton (Some cr) (Some y) (Some m) (Some p) None tpy guess = Inr b
    \<and> total_periods b = 0 \<and> price b = p \<and> macaulay_duration b = m
    \<and> (\<forall>y'. calculate_price_from_ytm b y' = Inr p)"
proof -
  define b0 where "b0 = initial_terms cr m p tpy guess"
  have n: "total_periods b0 = 0"
    using assms by (simp add: b0_def py_int_zero)
  have t: "terms_per_year b0 \<noteq> 0" and par0: "par b0 = p" and m0: "maturity b0 = m"
    using assms by (simp_all add: b0_def)
  have x: "discount b0 y \<noteq> 0" using assms(5) by (simp add: b0_def discount_def)
  have pf: "price_formula b0 y = p"
    by (simp add: price_formula_no_periods[OF n] par0)
  have "construct newton (Some cr) (Some y) (Some m) (Some p) None tpy guess
      = Inr (derived b0 y (price_formula b0 y))"
    unfolding b0_def using assms x pf by (intro construct_ytm_ok) (simp_all add: b0_def)
  then have c: "construct newton (Some cr) (Some y) (Some m) (Some p) None tpy guess
      = Inr (derived b0 y p)"
    by (simp add: pf)
  have "macaulay_duration (derived b0 y p) = m"
    using assms(1) by (simp add: macaulay_numerator_no_periods[OF n] par0 m0)
  moreover have "calculate_price_from_ytm (derived b0 y p) y' = Inr p" for y'
    by (simp add: calculate_price_from_ytm_no_periods[OF t n] par0)
  ultimately show ?thesis
    using c n by simp
qed

text \<open>
  The theorem at \<^verbatim>\<open>Bond(0.05, 0.05, 0.25, 100)\<close>.
\<close>

theorem no_whole_period_witness:
  "(0::real) < 100 \<and> (0::real) < 2 \<and> (0::real) < 1 / 4 \<and> (1 / 4) * 2 < (1::real)
   \<and> 1 + (1 / 20) / 2 \<noteq> (0::real)
   \<and> (\<exists>b. construct failing_newton (Some (1 / 20)) (Some (1 / 20)) (Some (1 / 4)) (Some 100)
             None 2 (1 / 20) = Inr b
          \<and> total_periods b = 0 \<and> price b = 100 \<and> macaulay_duration b = 1 / 4
          \<and> (\<forall>y'. calculate_price_from_ytm b y' = Inr 100))"
  using no_whole_period[of 100 2 "1 / 4" "1 / 20" failing_newton "1 / 20" "1 / 20"]
  by simp

text \<open>
  C10 as stated fails at \<^verbatim>\<open>Bond(0.05, -2.0, 0.25, 100)\<close>: the discount factor is zero,
  and the constructor raises \<^verbatim>\<open>ZeroDivisionError\<close> when it divides the Macaulay
  duration by it.
\<close>

theorem no_whole_period_zero_discount:
  "(0::real) < 100 \<and> (0::real) < 2 \<and> (0::real) < 1 / 4 \<and> (1 / 4) * 2 < (1::real)
   \<and> construct failing_newton (Some (1 / 20)) (Some (- 2)) (Some (1 / 4)) (Some 100) None 2
       (1 / 20) = Inl ZeroDivisionError"
  by (simp add: run_defs)

end
